theory Spec2Isabelle
  imports Complex_Main
begin

section \<open>Python values used by the API service\<close>

subsection \<open>Exceptions\<close>

text \<open>
  Every exception the modelled code can raise or receive is a value of \<open>py_exception\<close>;
  a fallible computation returns \<open>py_exception + 'a\<close> with \<open>Inl\<close> for the raise.
  \<open>HTTPException\<close> carries FastAPI's status code and detail string.  \<open>JSONDecodeError\<close>
  (raised by \<open>json.loads\<close>) and \<open>ParserError\<close> (raised by \<open>dateutil\<close>) are subclasses of
  \<open>ValueError\<close> in Python; \<open>isinstance_ValueError\<close> records that.  \<open>APIError\<close> stands for
  whatever a provider client raises, \<open>DBAPIError\<close> for SQLAlchemy's wrapper of a database
  error other than an integrity error.  \<open>ProcessingError\<close> is the name the specification
  gives to a failure of the AI transformer; the code defines no such class and nothing
  below raises it.
\<close>

datatype py_exception =
    ValueError
  | ParserError
  | JSONDecodeError
  | TypeError
  | OverflowError
  | ZeroDivisionError
  | IndexError
  | KeyError
  | AttributeError
  | RecursionError
  | IntegrityError
  | DBAPIError
  | APIError
  | HTTPException nat string
  | ProcessingError

definition isinstance_ValueError :: "py_exception \<Rightarrow> bool" where
  "isinstance_ValueError e = (e = ValueError \<or> e = ParserError \<or> e = JSONDecodeError)"

definition isinstance_TypeError :: "py_exception \<Rightarrow> bool" where
  "isinstance_TypeError e = (e = TypeError)"

subsection \<open>Floats: IEEE 754 binary64 with round-to-nearest-even\<close>

text \<open>
  A Python \<open>float\<close> is a binary64 number.  A finite float is modelled by the rational number
  it denotes, and every arithmetic operation rounds the exact result to the nearest
  representable number, ties to even, as the hardware does.  The sign of a zero is not
  modelled (it is not observable through \<open>==\<close>, \<open>+\<close> or \<open>*\<close> on the values used here).
\<close>

datatype py_float = Fin rat | PosInf | NegInf | NaN

definition round_half_even :: "rat \<Rightarrow> int" where
  "round_half_even x =
     (let f = \<lfloor>x\<rfloor>; d = x - of_int f
      in if d < 1 / 2 then f
         else if 1 / 2 < d then f + 1
         else if even f then f else f + 1)"

text \<open>Python's \<open>int.bit_length\<close> on a non-negative integer.\<close>

function bit_length :: "int \<Rightarrow> int" where
  "bit_length n = (if n \<le> 0 then 0 else 1 + bit_length (n div 2))"
  by pat_completeness auto
termination
  by (relation "measure nat") auto

text \<open>
  \<open>binade x\<close> is the exponent \<open>e\<close> with \<open>2^e \<le> |x| < 2^(e+1)\<close> for \<open>x \<noteq> 0\<close>, read off the
  bit length of the integer part of \<open>|x|\<close> (or of \<open>1 / |x|\<close> for \<open>|x| < 1\<close>).  The spacing of
  binary64 numbers around \<open>x\<close> is \<open>2^(e - 52)\<close> for normal numbers and \<open>2^(-1074)\<close> for
  subnormal ones.
\<close>

definition binade :: "rat \<Rightarrow> int" where
  "binade x =
     (if 1 \<le> \<bar>x\<bar> then bit_length \<lfloor>\<bar>x\<bar>\<rfloor> - 1
      else - bit_length (\<lceil>1 / \<bar>x\<bar>\<rceil> - 1))"

definition quantum :: "rat \<Rightarrow> rat" where
  "quantum x = 2 powi (max (binade x) (- 1022) - 52)"

definition b64 :: "rat \<Rightarrow> rat" where
  "b64 x = (if x = 0 then 0 else of_int (round_half_even (x / quantum x)) * quantum x)"

text \<open>Rounding a real result to a float; a result of magnitude \<open>2^1024\<close> or more overflows.\<close>

definition fl_round :: "rat \<Rightarrow> py_float" where
  "fl_round x =
     (let r = b64 x
      in if 2 ^ 1024 \<le> r then PosInf
         else if r \<le> - (2 ^ 1024) then NegInf
         else Fin r)"

text \<open>A decimal literal of the source, such as \<open>2.50\<close>, denotes the nearest float.\<close>

definition float_literal :: "rat \<Rightarrow> py_float" where
  "float_literal x = fl_round x"

definition inf_of_sign :: "rat \<Rightarrow> py_float" where
  "inf_of_sign s = (if 0 < s then PosInf else NegInf)"

fun fmul :: "py_float \<Rightarrow> py_float \<Rightarrow> py_float" where
  "fmul NaN y = NaN"
| "fmul x NaN = NaN"
| "fmul (Fin a) (Fin b) = fl_round (a * b)"
| "fmul (Fin a) PosInf = (if a = 0 then NaN else inf_of_sign a)"
| "fmul (Fin a) NegInf = (if a = 0 then NaN else inf_of_sign (- a))"
| "fmul PosInf (Fin b) = (if b = 0 then NaN else inf_of_sign b)"
| "fmul NegInf (Fin b) = (if b = 0 then NaN else inf_of_sign (- b))"
| "fmul PosInf PosInf = PosInf"
| "fmul PosInf NegInf = NegInf"
| "fmul NegInf PosInf = NegInf"
| "fmul NegInf NegInf = PosInf"

fun fadd :: "py_float \<Rightarrow> py_float \<Rightarrow> py_float" where
  "fadd NaN y = NaN"
| "fadd x NaN = NaN"
| "fadd (Fin a) (Fin b) = fl_round (a + b)"
| "fadd (Fin a) PosInf = PosInf"
| "fadd (Fin a) NegInf = NegInf"
| "fadd PosInf (Fin b) = PosInf"
| "fadd NegInf (Fin b) = NegInf"
| "fadd PosInf PosInf = PosInf"
| "fadd PosInf NegInf = NaN"
| "fadd NegInf PosInf = NaN"
| "fadd NegInf NegInf = NegInf"

text \<open>
  \<open>a / b\<close> on two Python ints: the correctly rounded quotient; \<open>ZeroDivisionError\<close> for a zero
  divisor and \<open>OverflowError\<close> when the quotient is too large for a float.
\<close>

definition int_truediv :: "int \<Rightarrow> int \<Rightarrow> py_exception + py_float" where
  "int_truediv a b =
     (if b = 0 then Inl ZeroDivisionError
      else case fl_round (of_int a / of_int b) of
             Fin r \<Rightarrow> Inr (Fin r)
           | _ \<Rightarrow> Inl OverflowError)"

subsection \<open>Dictionaries with string keys\<close>

text \<open>
  A dict literal is an association list; \<open>d[k]\<close> raises \<open>KeyError\<close> for a missing key and
  \<open>d.get(k, default)\<close> returns the default.
\<close>

definition dict_getitem :: "('k \<times> 'v) list \<Rightarrow> 'k \<Rightarrow> py_exception + 'v" where
  "dict_getitem d k = (case map_of d k of None \<Rightarrow> Inl KeyError | Some v \<Rightarrow> Inr v)"

definition dict_get :: "('k \<times> 'v) list \<Rightarrow> 'k \<Rightarrow> 'v \<Rightarrow> 'v" where
  "dict_get d k dflt = (case map_of d k of None \<Rightarrow> dflt | Some v \<Rightarrow> v)"

subsection \<open>Opaque identifiers, timestamps, optional arguments\<close>

text \<open>
  Identifiers and timestamps are opaque: a UUID and a \<open>datetime\<close> are natural numbers.  An
  argument with a default value, or a field of a request body, is either left out (\<open>Unset\<close>)
  or \<open>Given\<close>.
\<close>

type_synonym uuid = nat
type_synonym datetime = nat

datatype 'a field = Unset | Given 'a

definition or_default :: "'a field \<Rightarrow> 'a \<Rightarrow> 'a" where
  "or_default f dflt = (case f of Unset \<Rightarrow> dflt | Given v \<Rightarrow> v)"

subsection \<open>Strings and lists\<close>

text \<open>
  \<open>s.startswith(p)\<close>, \<open>sub in s\<close> and \<open>s.split(sep)\<close> of Python's \<open>str\<close>, for any alphabet.
  \<open>split\<close> scans from the left and cuts at each occurrence of the separator, without
  overlaps; an empty separator raises \<open>ValueError\<close>.
\<close>

definition startswith :: "'a list \<Rightarrow> 'a list \<Rightarrow> bool" where
  "startswith s p = (take (length p) s = p)"

fun contains :: "'a list \<Rightarrow> 'a list \<Rightarrow> bool" where
  "contains [] sub = (sub = [])"
| "contains (c # cs) sub = (startswith (c # cs) sub \<or> contains cs sub)"

fun split_acc :: "'a list \<Rightarrow> 'a list \<Rightarrow> 'a list \<Rightarrow> 'a list list" where
  "split_acc sep seg [] = [seg]"
| "split_acc sep seg (c # cs) =
     (if startswith (c # cs) sep then seg # split_acc sep [] (drop (length sep - 1) cs)
      else split_acc sep (seg @ [c]) cs)"

definition str_split :: "'a list \<Rightarrow> 'a list \<Rightarrow> py_exception + 'a list list" where
  "str_split s sep = (if sep = [] then Inl ValueError else Inr (split_acc sep [] s))"

text \<open>\<open>xs[i]\<close> for a non-negative index: \<open>IndexError\<close> beyond the end.\<close>

definition list_getitem :: "'a list \<Rightarrow> nat \<Rightarrow> py_exception + 'a" where
  "list_getitem xs i = (if i < length xs then Inr (xs ! i) else Inl IndexError)"

text \<open>
  \<open>s.strip()\<close> removes leading and trailing whitespace.  Among the characters below 256
  Python's whitespace is U+0009 to U+000D, U+001C to U+0020, U+0085 and U+00A0.
\<close>

definition isspace :: "char \<Rightarrow> bool" where
  "isspace c = (of_char c \<in> {9, 10, 11, 12, 13, 28, 29, 30, 31, 32, 133, 160 :: nat})"

definition strip :: "string \<Rightarrow> string" where
  "strip s = rev (dropWhile isspace (rev (dropWhile isspace s)))"

text \<open>
  \<open>d[k] = v\<close> on a dict keeps the position of an existing key and appends a new one.
\<close>

fun dict_setitem :: "('k \<times> 'v) list \<Rightarrow> 'k \<Rightarrow> 'v \<Rightarrow> ('k \<times> 'v) list" where
  "dict_setitem [] k v = [(k, v)]"
| "dict_setitem ((k', v') # d) k v =
     (if k' = k then (k, v) # d else (k', v') # dict_setitem d k v)"

section \<open>Cost of an AI call (\<open>services/ai/processor.py\<close>)\<close>

text \<open>
  The inner dicts of the pricing tables all have exactly the keys \<open>"input"\<close> and \<open>"output"\<close>;
  they are modelled as a record with the fields \<open>input_rate\<close> and \<open>output_rate\<close>
  (\<open>output\<close> is a reserved word of the theory language).  The usage objects of the two
  provider SDKs carry integer token counts.
\<close>

record rates =
  input_rate :: py_float
  output_rate :: py_float

record openai_usage =
  prompt_tokens :: int
  completion_tokens :: int

record anthropic_usage =
  input_tokens :: int
  output_tokens :: int

definition openai_pricing :: "(string \<times> rates) list" where
  "openai_pricing =
     [(''gpt-4o'', \<lparr>input_rate = float_literal (250 / 100), output_rate = float_literal (1000 / 100)\<rparr>),
      (''gpt-4o-mini'', \<lparr>input_rate = float_literal (15 / 100), output_rate = float_literal (60 / 100)\<rparr>),
      (''gpt-4-turbo'', \<lparr>input_rate = float_literal (1000 / 100), output_rate = float_literal (3000 / 100)\<rparr>)]"

definition anthropic_pricing :: "(string \<times> rates) list" where
  "anthropic_pricing =
     [(''claude-3-5-sonnet-20241022'',
         \<lparr>input_rate = float_literal (300 / 100), output_rate = float_literal (1500 / 100)\<rparr>),
      (''claude-3-5-haiku-20241022'',
         \<lparr>input_rate = float_literal (80 / 100), output_rate = float_literal (400 / 100)\<rparr>)]"

text \<open>
  \<open>_calculate_cost_openai\<close> and \<open>_calculate_cost_anthropic\<close> (the leading underscore is
  dropped).  The default argument \<open>pricing["gpt-4o"]\<close> of \<open>pricing.get\<close> is evaluated before
  the lookup, as Python evaluates arguments first.
\<close>

definition calculate_cost_openai :: "string \<Rightarrow> openai_usage \<Rightarrow> py_exception + py_float" where
  "calculate_cost_openai model usage =
     (case dict_getitem openai_pricing ''gpt-4o'' of
        Inl e \<Rightarrow> Inl e
      | Inr dflt \<Rightarrow>
          (let rates = dict_get openai_pricing model dflt
           in case int_truediv (prompt_tokens usage) 1000000 of
                Inl e \<Rightarrow> Inl e
              | Inr p \<Rightarrow>
                  (let input_cost = fmul p (input_rate rates)
                   in case int_truediv (completion_tokens usage) 1000000 of
                        Inl e \<Rightarrow> Inl e
                      | Inr c \<Rightarrow>
                          (let output_cost = fmul c (output_rate rates)
                           in Inr (fadd input_cost output_cost)))))"

definition calculate_cost_anthropic ::
  "string \<Rightarrow> anthropic_usage \<Rightarrow> py_exception + py_float" where
  "calculate_cost_anthropic model usage =
     (case dict_getitem anthropic_pricing ''claude-3-5-sonnet-20241022'' of
        Inl e \<Rightarrow> Inl e
      | Inr dflt \<Rightarrow>
          (let rates = dict_get anthropic_pricing model dflt
           in case int_truediv (input_tokens usage) 1000000 of
                Inl e \<Rightarrow> Inl e
              | Inr p \<Rightarrow>
                  (let input_cost = fmul p (input_rate rates)
                   in case int_truediv (output_tokens usage) 1000000 of
                        Inl e \<Rightarrow> Inl e
                      | Inr c \<Rightarrow>
                          (let output_cost = fmul c (output_rate rates)
                           in Inr (fadd input_cost output_cost)))))"

text \<open>
  The formula of the specification, \<open>(input_tokens / 1e6) * input_rate + (output_tokens / 1e6)
  * output_rate\<close>, evaluated left to right in float arithmetic for given rates.  The
  divisor is the integer \<open>1_000_000\<close>, as in the code; token counts are integers.
\<close>

definition spec_cost_formula :: "int \<Rightarrow> int \<Rightarrow> rates \<Rightarrow> py_exception + py_float" where
  "spec_cost_formula tokens_in tokens_out r =
     (case int_truediv tokens_in 1000000 of
        Inl e \<Rightarrow> Inl e
      | Inr p \<Rightarrow>
          (case int_truediv tokens_out 1000000 of
             Inl e \<Rightarrow> Inl e
           | Inr c \<Rightarrow> Inr (fadd (fmul p (input_rate r)) (fmul c (output_rate r)))))"

section \<open>Scraper adapter base (\<open>services/scraper/base.py\<close>)\<close>

text \<open>
  The dataclass \<open>ScrapedArticle\<close>.  The generated constructor assigns the arguments, with
  \<open>None\<close> for each of the last three when it is left out, and then runs \<open>__post_init__\<close>
  (named \<open>post_init\<close> here), which replaces a \<open>None\<close> metadata by the empty dict.
\<close>

record 'v ScrapedArticle =
  external_id :: string
  external_url :: string
  title :: string
  content :: "string option"
  published_at :: "datetime option"
  metadata :: "(string \<times> 'v) list option"

definition post_init :: "'v ScrapedArticle \<Rightarrow> 'v ScrapedArticle" where
  "post_init self = (if metadata self = None then self\<lparr>metadata := Some []\<rparr> else self)"

definition ScrapedArticle_init ::
  "string \<Rightarrow> string \<Rightarrow> string \<Rightarrow> string option field \<Rightarrow> datetime option field
     \<Rightarrow> (string \<times> 'v) list option field \<Rightarrow> 'v ScrapedArticle"
where
  "ScrapedArticle_init external_id_arg external_url_arg title_arg content_arg published_at_arg
       metadata_arg =
     post_init
       \<lparr>external_id = external_id_arg, external_url = external_url_arg, title = title_arg,
        content = or_default content_arg None,
        published_at = or_default published_at_arg None,
        metadata = or_default metadata_arg None\<rparr>"

text \<open>
  \<open>BaseAdapter._parse_date\<close> (the leading underscore is dropped).  \<open>dateutil\<close>'s
  \<open>parser.parse\<close> is not part of the repository; it is the parameter \<open>parser_parse\<close>, which
  returns a \<open>datetime\<close> or raises.  \<open>not date_str\<close> holds for \<open>None\<close> and for the empty
  string.  The handler \<open>except (ValueError, TypeError)\<close> catches these two classes and their
  subclasses; any other exception propagates.
\<close>

definition parse_date ::
  "(string \<Rightarrow> py_exception + datetime) \<Rightarrow> string option \<Rightarrow> py_exception + datetime option"
where
  "parse_date parser_parse date_str =
     (case date_str of
        None \<Rightarrow> Inr None
      | Some s \<Rightarrow>
          if s = [] then Inr None
          else case parser_parse s of
                 Inr d \<Rightarrow> Inr (Some d)
               | Inl e \<Rightarrow>
                   if isinstance_ValueError e \<or> isinstance_TypeError e then Inr None
                   else Inl e)"

text \<open>
  \<open>dateutil\<close> documents that \<open>parser.parse\<close> raises \<open>OverflowError\<close> when the parsed date
  exceeds the largest valid C integer.  It does so on a long run of digits such as
  \<open>08335394550\<close>, which it reads as a year and passes to \<open>datetime.replace\<close>.  The
  following parser stands for \<open>dateutil\<close> on that input (and reports every other string as
  unparseable); it is used only at that input.
\<close>

definition parse_digits_as_year :: "string \<Rightarrow> py_exception + datetime" where
  "parse_digits_as_year s = (if s = ''08335394550'' then Inl OverflowError else Inl ParserError)"

section \<open>AI article processor (\<open>services/ai/processor.py\<close>)\<close>

subsection \<open>JSON values and provider responses\<close>

text \<open>
  The values \<open>json.loads\<close> returns, which are also the values \<open>process\<close> returns.
  \<open>obj[k] = v\<close> with a string key succeeds on a dict only; on a list and on every other
  value it raises \<open>TypeError\<close>.
\<close>

datatype json =
    JNull
  | JBool bool
  | JInt int
  | JFloat py_float
  | JStr string
  | JList "json list"
  | JDict "(string \<times> json) list"

definition setitem :: "json \<Rightarrow> string \<Rightarrow> json \<Rightarrow> py_exception + json" where
  "setitem obj k v = (case obj of JDict d \<Rightarrow> Inr (JDict (dict_setitem d k v)) | _ \<Rightarrow> Inl TypeError)"

text \<open>
  \<open>json.loads\<close> is a parameter, \<open>loads\<close>, of the functions below: applied to a text it
  returns the parsed value or raises.  It raises \<open>json.JSONDecodeError\<close> on malformed text;
  the parser of the standard library also raises \<open>RecursionError\<close> on deeply nested input
  and a plain \<open>ValueError\<close> on an integer literal of more than 4300 digits.
\<close>

type_synonym json_parser = "string \<Rightarrow> py_exception + json"

text \<open>
  What the code reads of a provider response: for Anthropic the text of each content block
  and the usage, for OpenAI the message content of each choice (which may be \<open>None\<close>) and
  the usage.
\<close>

record anthropic_response =
  content :: "string list"
  usage :: anthropic_usage

record openai_response =
  choices :: "string option list"
  usage :: openai_usage

record ArticleProcessor =
  model :: string
  provider :: string

text \<open>\<open>ArticleProcessor.__init__\<close>, with \<open>settings.AI_MODEL\<close> as argument.\<close>

definition ArticleProcessor_init :: "string \<Rightarrow> ArticleProcessor" where
  "ArticleProcessor_init ai_model =
     (if contains ai_model ''gpt'' \<or> contains ai_model ''o1''
      then \<lparr>model = ai_model, provider = ''openai''\<rparr>
      else \<lparr>model = ai_model, provider = ''anthropic''\<rparr>)"

subsection \<open>\<open>_process_openai\<close>\<close>

text \<open>
  The provider call is an input: \<open>api\<close> is the response or the exception the call raised.
  \<open>json.loads(None)\<close> raises \<open>TypeError\<close>.  \<open>annotate_openai\<close> is what the function does with
  the parsed result: the usage and the cost.
\<close>

definition annotate_openai :: "ArticleProcessor \<Rightarrow> openai_usage \<Rightarrow> json \<Rightarrow> py_exception + json" where
  "annotate_openai self u result =
     (case setitem result ''_usage''
             (JDict [(''prompt_tokens'', JInt (prompt_tokens u)),
                     (''completion_tokens'', JInt (completion_tokens u)),
                     (''model'', JStr (model self))]) of
        Inl e \<Rightarrow> Inl e
      | Inr result' \<Rightarrow>
     (case calculate_cost_openai (model self) u of
        Inl e \<Rightarrow> Inl e
      | Inr cost \<Rightarrow> setitem result' ''_cost_usd'' (JFloat cost)))"

definition process_openai ::
  "json_parser \<Rightarrow> ArticleProcessor \<Rightarrow> py_exception + openai_response
     \<Rightarrow> py_exception + json"
where
  "process_openai loads self api =
     (case api of
        Inl e \<Rightarrow> Inl e
      | Inr response \<Rightarrow>
     (case list_getitem (choices response) 0 of
        Inl e \<Rightarrow> Inl e
      | Inr None \<Rightarrow> Inl TypeError
      | Inr (Some text) \<Rightarrow>
     (case loads text of
        Inl e \<Rightarrow> Inl e
      | Inr result \<Rightarrow> annotate_openai self (openai_response.usage response) result)))"

subsection \<open>\<open>_process_anthropic\<close>\<close>

text \<open>
  The handling of markdown code blocks: the text after the first \<open>```json\<close> up to the next
  \<open>```\<close>, else the text between the first two \<open>```\<close>, else the text itself.
\<close>

definition extract_json :: "string \<Rightarrow> py_exception + string" where
  "extract_json text =
     (if contains text ''```json'' then
        (case str_split text ''```json'' of
           Inl e \<Rightarrow> Inl e
         | Inr parts \<Rightarrow>
        (case list_getitem parts 1 of
           Inl e \<Rightarrow> Inl e
         | Inr part \<Rightarrow>
        (case str_split part ''```'' of
           Inl e \<Rightarrow> Inl e
         | Inr parts' \<Rightarrow> list_getitem parts' 0)))
      else if contains text ''```'' then
        (case str_split text ''```'' of
           Inl e \<Rightarrow> Inl e
         | Inr parts \<Rightarrow>
        (case list_getitem parts 1 of
           Inl e \<Rightarrow> Inl e
         | Inr part \<Rightarrow>
        (case str_split part ''```'' of
           Inl e \<Rightarrow> Inl e
         | Inr parts' \<Rightarrow> list_getitem parts' 0)))
      else Inr text)"

text \<open>What \<open>_process_anthropic\<close> does with the parsed result: the usage and the cost.\<close>

definition annotate_anthropic ::
  "ArticleProcessor \<Rightarrow> anthropic_usage \<Rightarrow> json \<Rightarrow> py_exception + json"
where
  "annotate_anthropic self u result =
     (case setitem result ''_usage''
             (JDict [(''input_tokens'', JInt (input_tokens u)),
                     (''output_tokens'', JInt (output_tokens u)),
                     (''model'', JStr (model self))]) of
        Inl e \<Rightarrow> Inl e
      | Inr result' \<Rightarrow>
     (case calculate_cost_anthropic (model self) u of
        Inl e \<Rightarrow> Inl e
      | Inr cost \<Rightarrow> setitem result' ''_cost_usd'' (JFloat cost)))"

definition process_anthropic ::
  "json_parser \<Rightarrow> ArticleProcessor \<Rightarrow> py_exception + anthropic_response
     \<Rightarrow> py_exception + json"
where
  "process_anthropic loads self api =
     (case api of
        Inl e \<Rightarrow> Inl e
      | Inr response \<Rightarrow>
     (case list_getitem (content response) 0 of
        Inl e \<Rightarrow> Inl e
      | Inr text \<Rightarrow>
     (case extract_json text of
        Inl e \<Rightarrow> Inl e
      | Inr payload \<Rightarrow>
     (case loads (strip payload) of
        Inl e \<Rightarrow> Inl e
      | Inr result \<Rightarrow> annotate_anthropic self (anthropic_response.usage response) result))))"

subsection \<open>\<open>process\<close>\<close>

text \<open>
  What \<open>process\<close> reads of the raw article: its title, the name of its source if it has
  one, and its content.  The prompt template \<open>ARTICLE_PROCESSING_PROMPT\<close> is not part of the
  sources at hand; rendering it is the parameter \<open>render_prompt\<close> (title, source, content).
  The two provider clients are parameters as well: given the model and the prompt they
  return a response or raise.
\<close>

record raw_article =
  title_original :: string
  source_name :: "string option"
  content_original :: "string option"

record llm_env =
  render_prompt :: "string \<Rightarrow> string \<Rightarrow> string \<Rightarrow> string"
  openai_create :: "string \<Rightarrow> string \<Rightarrow> py_exception + openai_response"
  anthropic_create :: "string \<Rightarrow> string \<Rightarrow> py_exception + anthropic_response"
  loads :: json_parser

definition prompt_of :: "llm_env \<Rightarrow> raw_article \<Rightarrow> string" where
  "prompt_of env raw =
     render_prompt env (title_original raw)
       (case source_name raw of Some n \<Rightarrow> n | None \<Rightarrow> ''Unknown'')
       (case content_original raw of
          None \<Rightarrow> title_original raw
        | Some c \<Rightarrow> if c = [] then title_original raw else c)"

definition process :: "llm_env \<Rightarrow> ArticleProcessor \<Rightarrow> raw_article \<Rightarrow> py_exception + json" where
  "process env self raw =
     (let prompt = prompt_of env raw
      in if provider self = ''openai''
         then process_openai (loads env) self (openai_create env (model self) prompt)
         else process_anthropic (loads env) self (anthropic_create env (model self) prompt))"

subsection \<open>Sample responses\<close>

text \<open>
  Two JSON documents, and a parser that agrees with \<open>json.loads\<close> on the texts used in the
  concrete runs below: it reads these two documents and rejects every other text as
  malformed.
\<close>

definition title_doc :: string where
  \<open>title_doc = ''{"title": "Restart"}''\<close>

definition content_doc :: string where
  \<open>content_doc = ''{"content": "```"}''\<close>

definition sample_loads :: json_parser where
  "sample_loads s =
     (if s = title_doc then Inr (JDict [(''title'', JStr ''Restart'')])
      else if s = content_doc then Inr (JDict [(''content'', JStr ''```'')])
      else Inl JSONDecodeError)"

definition tagged_reply :: string where
  "tagged_reply = ''```json\<newline>'' @ title_doc @ ''\<newline>```''"

definition bare_reply :: string where
  "bare_reply = ''Use `x`:\<newline>```\<newline>'' @ title_doc @ ''\<newline>```\<newline>Done.''"

definition chatty_reply :: string where
  "chatty_reply =
     ''Use `x`:\<newline>```json\<newline>'' @ title_doc @ ''\<newline>```\<newline>See also ```json''"

definition nested_reply :: string where
  "nested_reply = ''```json\<newline>'' @ content_doc @ ''\<newline>```''"

definition sample_usage :: anthropic_usage where
  "sample_usage = \<lparr>input_tokens = 1000, output_tokens = 500\<rparr>"

definition sample_env :: "string \<Rightarrow> llm_env" where
  "sample_env text =
     \<lparr>render_prompt = (\<lambda>title source body. title @ source @ body),
      openai_create =
        (\<lambda>m prompt. Inr \<lparr>choices = [Some text],
                          usage = \<lparr>prompt_tokens = 1000, completion_tokens = 500\<rparr>\<rparr>),
      anthropic_create = (\<lambda>m prompt. Inr \<lparr>content = [text], usage = sample_usage\<rparr>),
      loads = sample_loads\<rparr>"

definition sample_raw :: raw_article where
  "sample_raw = \<lparr>title_original = ''Restart'', source_name = None, content_original = None\<rparr>"

section \<open>Articles API (\<open>schemas/article.py\<close>, \<open>models/article.py\<close>, \<open>routers/articles.py\<close>)\<close>

text \<open>
  A Python \<open>str\<close> is a \<open>string\<close>, one character per element.  \<open>None\<close> is \<open>None\<close>: every
  attribute that can hold \<open>None\<close> has an option type.
\<close>

subsection \<open>The update payload\<close>

text \<open>
  \<open>ArticleUpdate\<close> has six optional fields.  \<open>model_dump(exclude_unset=True)\<close> keeps exactly
  the fields the request set, an explicit \<open>null\<close> included, so each field is either \<open>Unset\<close>
  or \<open>Given v\<close> with \<open>v\<close> possibly \<open>None\<close>.
\<close>

record ArticleUpdate =
  title :: "string option field"
  excerpt :: "string option field"
  content :: "string option field"
  category :: "string option field"
  tags :: "string list option field"
  cover_image_url :: "string option field"

subsection \<open>The \<open>articles\<close> table\<close>

text \<open>
  One row of the table, which is also the state of the ORM object loaded from it.  The
  primary key \<open>id\<close> is the key of the table below and not repeated in the row.  Columns
  that no handler assigns and that are declared \<open>nullable=False\<close> have no option type.
\<close>

record Article =
  slug :: string
  title :: "string option"
  excerpt :: "string option"
  content :: "string option"
  category :: "string option"
  tags :: "string list option"
  significance_score :: "int option"
  cover_image_url :: "string option"
  source_ids :: "uuid list"
  original_urls :: "string list"
  status :: "string option"
  published_at :: "datetime option"
  ai_model :: "string option"
  ai_prompt_version :: "string option"
  processing_cost_usd :: "rat option"
  created_at :: "datetime option"
  updated_at :: "datetime option"
  created_by :: "uuid option"
  published_by :: "uuid option"

type_synonym articles_table = "uuid \<Rightarrow> Article option"

text \<open>
  \<open>select(Article).where(Article.id == article_id)\<close> followed by \<open>scalar_one_or_none()\<close>: the
  row with that primary key, or \<open>None\<close>.
\<close>

definition scalar_one_or_none :: "articles_table \<Rightarrow> uuid \<Rightarrow> Article option" where
  "scalar_one_or_none db article_id = db article_id"

subsection \<open>Committing a changed object\<close>

text \<open>
  What PostgreSQL does with a value assigned to a column.  No text value may contain the
  character U+0000.  A \<open>String(n)\<close> column (\<open>varchar(n)\<close>) holds at most \<open>n\<close> characters: a
  longer value is rejected, unless the excess characters are all spaces, in which case it is
  truncated to \<open>n\<close> characters and stored.  Both rejections are data errors, which SQLAlchemy
  raises as \<open>DBAPIError\<close>.  A \<open>nullable=False\<close> column rejects \<open>NULL\<close> with an integrity error.
\<close>

definition has_nul :: "string \<Rightarrow> bool" where
  "has_nul s = (CHR 0x00 \<in> set s)"

definition text_rejects :: "string option \<Rightarrow> bool" where
  "text_rejects v = (case v of None \<Rightarrow> False | Some s \<Rightarrow> has_nul s)"

definition text_array_rejects :: "string list option \<Rightarrow> bool" where
  "text_array_rejects v = (case v of None \<Rightarrow> False | Some xs \<Rightarrow> (\<exists>s \<in> set xs. has_nul s))"

definition varchar_rejects :: "nat \<Rightarrow> string option \<Rightarrow> bool" where
  "varchar_rejects n v =
     (case v of
        None \<Rightarrow> False
      | Some s \<Rightarrow> has_nul s \<or> (n < length s \<and> (\<exists>c \<in> set (drop n s). c \<noteq> CHR '' '')))"

definition varchar_stored :: "nat \<Rightarrow> string option \<Rightarrow> string option" where
  "varchar_stored n v = map_option (take n) v"

text \<open>
  The UPDATE statement of a flush carries only the attributes whose value differs from
  the loaded one, so only those are checked and written.  The attributes listed are the
  ones some handler assigns.
\<close>

definition flush_error :: "Article \<Rightarrow> Article \<Rightarrow> py_exception option" where
  "flush_error loaded obj =
     (if (title obj \<noteq> title loaded \<and> varchar_rejects 500 (title obj))
         \<or> (excerpt obj \<noteq> excerpt loaded \<and> text_rejects (excerpt obj))
         \<or> (content obj \<noteq> content loaded \<and> text_rejects (content obj))
         \<or> (category obj \<noteq> category loaded \<and> varchar_rejects 100 (category obj))
         \<or> (tags obj \<noteq> tags loaded \<and> text_array_rejects (tags obj))
         \<or> (cover_image_url obj \<noteq> cover_image_url loaded
              \<and> varchar_rejects 1000 (cover_image_url obj))
         \<or> (status obj \<noteq> status loaded \<and> varchar_rejects 50 (status obj))
      then Some DBAPIError
      else if (title obj \<noteq> title loaded \<and> title obj = None)
         \<or> (excerpt obj \<noteq> excerpt loaded \<and> excerpt obj = None)
         \<or> (content obj \<noteq> content loaded \<and> content obj = None)
         \<or> (category obj \<noteq> category loaded \<and> category obj = None)
      then Some IntegrityError
      else None)"

text \<open>The row after an accepted UPDATE: the new values, as the columns store them.\<close>

definition stored_row :: "Article \<Rightarrow> Article \<Rightarrow> Article" where
  "stored_row loaded obj =
     obj\<lparr>title := (if title obj = title loaded then title loaded
                   else varchar_stored 500 (title obj)),
         category := (if category obj = category loaded then category loaded
                      else varchar_stored 100 (category obj)),
         cover_image_url := (if cover_image_url obj = cover_image_url loaded
                             then cover_image_url loaded
                             else varchar_stored 1000 (cover_image_url obj)),
         status := (if status obj = status loaded then status loaded
                    else varchar_stored 50 (status obj))\<rparr>"

text \<open>
  \<open>await db.commit()\<close> for one object loaded as \<open>loaded\<close> and now in state \<open>obj\<close>.  SQLAlchemy
  emits an UPDATE only if some attribute has a new value; the \<open>onupdate=datetime.utcnow\<close>
  default of \<open>updated_at\<close> is evaluated for that UPDATE (\<open>now\<close> is the clock reading then),
  since no handler assigns \<open>updated_at\<close> itself.  A rejected UPDATE raises and leaves the
  table as it was (the session is rolled back by \<open>get_db\<close>).  The result is the new table.
\<close>

definition commit ::
  "datetime \<Rightarrow> articles_table \<Rightarrow> uuid \<Rightarrow> Article \<Rightarrow> Article \<Rightarrow> py_exception + articles_table"
where
  "commit now db article_id loaded obj =
     (if obj = loaded then Inr db
      else case flush_error loaded obj of
             Some e \<Rightarrow> Inl e
           | None \<Rightarrow> Inr (db(article_id \<mapsto> (stored_row loaded obj)\<lparr>updated_at := Some now\<rparr>)))"

text \<open>\<open>await db.refresh(article)\<close>: the attributes are reloaded from the row.\<close>

definition refresh :: "articles_table \<Rightarrow> uuid \<Rightarrow> Article \<Rightarrow> Article" where
  "refresh db article_id obj = (case db article_id of None \<Rightarrow> obj | Some row \<Rightarrow> row)"

subsection \<open>The handlers\<close>

text \<open>
  A handler takes the table and returns its response (or the exception it raises) together
  with the table afterwards.
\<close>

text \<open>
  The loop \<open>for field, value in data.model_dump(exclude_unset=True).items(): setattr(article,
  field, value)\<close>, in the declaration order of the fields.
\<close>

definition setattr_title :: "string option field \<Rightarrow> Article \<Rightarrow> Article" where
  "setattr_title f a = (case f of Unset \<Rightarrow> a | Given v \<Rightarrow> a\<lparr>title := v\<rparr>)"

definition setattr_excerpt :: "string option field \<Rightarrow> Article \<Rightarrow> Article" where
  "setattr_excerpt f a = (case f of Unset \<Rightarrow> a | Given v \<Rightarrow> a\<lparr>excerpt := v\<rparr>)"

definition setattr_content :: "string option field \<Rightarrow> Article \<Rightarrow> Article" where
  "setattr_content f a = (case f of Unset \<Rightarrow> a | Given v \<Rightarrow> a\<lparr>content := v\<rparr>)"

definition setattr_category :: "string option field \<Rightarrow> Article \<Rightarrow> Article" where
  "setattr_category f a = (case f of Unset \<Rightarrow> a | Given v \<Rightarrow> a\<lparr>category := v\<rparr>)"

definition setattr_tags :: "string list option field \<Rightarrow> Article \<Rightarrow> Article" where
  "setattr_tags f a = (case f of Unset \<Rightarrow> a | Given v \<Rightarrow> a\<lparr>tags := v\<rparr>)"

definition setattr_cover_image_url :: "string option field \<Rightarrow> Article \<Rightarrow> Article" where
  "setattr_cover_image_url f a = (case f of Unset \<Rightarrow> a | Given v \<Rightarrow> a\<lparr>cover_image_url := v\<rparr>)"

definition setattr_loop :: "ArticleUpdate \<Rightarrow> Article \<Rightarrow> Article" where
  "setattr_loop data article =
     setattr_cover_image_url (ArticleUpdate.cover_image_url data)
       (setattr_tags (ArticleUpdate.tags data)
         (setattr_category (ArticleUpdate.category data)
           (setattr_content (ArticleUpdate.content data)
             (setattr_excerpt (ArticleUpdate.excerpt data)
               (setattr_title (ArticleUpdate.title data) article)))))"

definition update_article ::
  "datetime \<Rightarrow> uuid \<Rightarrow> ArticleUpdate \<Rightarrow> articles_table
     \<Rightarrow> (py_exception + Article) \<times> articles_table"
where
  "update_article flush_time article_id data db =
     (case scalar_one_or_none db article_id of
        None \<Rightarrow> (Inl (HTTPException 404 ''Article not found''), db)
      | Some article \<Rightarrow>
          (let article' = setattr_loop data article
           in case commit flush_time db article_id article article' of
                Inl e \<Rightarrow> (Inl e, db)
              | Inr db' \<Rightarrow> (Inr (refresh db' article_id article'), db')))"

text \<open>
  \<open>publish_article\<close> reads the clock itself (\<open>utcnow\<close>) for \<open>published_at\<close>; the flush reads
  it again for \<open>updated_at\<close>.
\<close>

definition publish_article ::
  "datetime \<Rightarrow> datetime \<Rightarrow> uuid \<Rightarrow> articles_table
     \<Rightarrow> (py_exception + Article) \<times> articles_table"
where
  "publish_article utcnow flush_time article_id db =
     (case scalar_one_or_none db article_id of
        None \<Rightarrow> (Inl (HTTPException 404 ''Article not found''), db)
      | Some article \<Rightarrow>
          if status article = Some ''published''
          then (Inl (HTTPException 400 ''Article already published''), db)
          else
            (let article' = article\<lparr>status := Some ''published'', published_at := Some utcnow\<rparr>
             in case commit flush_time db article_id article article' of
                  Inl e \<Rightarrow> (Inl e, db)
                | Inr db' \<Rightarrow> (Inr (refresh db' article_id article'), db')))"

text \<open>\<open>archive_article\<close> returns the dict \<open>{"status": "archived"}\<close>.\<close>

definition archive_article ::
  "datetime \<Rightarrow> uuid \<Rightarrow> articles_table
     \<Rightarrow> (py_exception + (string \<times> string) list) \<times> articles_table"
where
  "archive_article flush_time article_id db =
     (case scalar_one_or_none db article_id of
        None \<Rightarrow> (Inl (HTTPException 404 ''Article not found''), db)
      | Some article \<Rightarrow>
          (let article' = article\<lparr>status := Some ''archived''\<rparr>
           in case commit flush_time db article_id article article' of
                Inl e \<Rightarrow> (Inl e, db)
              | Inr db' \<Rightarrow> (Inr [(''status'', ''archived'')], db')))"

subsection \<open>A table with one article, for concrete runs\<close>

definition sample_article :: Article where
  "sample_article =
     \<lparr>slug = ''reactor-restart'', title = Some ''Reactor restart'', excerpt = Some ''Short'',
      content = Some ''Long text'', category = Some ''industry'', tags = Some [''npp''],
      significance_score = Some 7, cover_image_url = None, source_ids = [3],
      original_urls = [''https://example.org/a1''], status = Some ''draft'',
      published_at = None, ai_model = Some ''gpt-4o'', ai_prompt_version = Some ''v1'',
      processing_cost_usd = Some (75 / 10000), created_at = Some 10, updated_at = Some 10,
      created_by = None, published_by = None\<rparr>"

definition sample_table :: "string \<Rightarrow> articles_table" where
  "sample_table st = Map.empty(7 \<mapsto> sample_article\<lparr>status := Some st\<rparr>)"

definition retitle :: ArticleUpdate where
  "retitle =
     \<lparr>ArticleUpdate.title = Given (Some ''Reactor restarted''), ArticleUpdate.excerpt = Unset,
      ArticleUpdate.content = Unset, ArticleUpdate.category = Unset, ArticleUpdate.tags = Unset,
      ArticleUpdate.cover_image_url = Unset\<rparr>"

section \<open>Persisting the outcome of the AI transformer\<close>

text \<open>
  Modelled from the spec: the state the pipeline orchestrator keeps for one raw article, the
  drafts created so far and the processing status of the raw article.  The orchestrator is
  not among the sources; section 3 and section 4.5 of the specification describe it.
\<close>

record pipeline_state =
  drafts :: "Article list"
  processing_status :: string

text \<open>
  Modelled from the spec: the step after the AI transformer, which is not among the
  sources.  Section 4.5: on success a new Article is created with status \<open>draft\<close>,
  \<open>source_ids = [raw_article.id]\<close> and \<open>original_urls = [raw_article.external_url]\<close>, and the
  status of the raw article is set to \<open>processed\<close>; on failure the status is set to \<open>failed\<close>
  and the Article is not created.  How the other fields of the draft are read off the
  result is the parameter \<open>draft_of\<close>.
\<close>

definition persist_outcome ::
  "(json \<Rightarrow> Article) \<Rightarrow> uuid \<Rightarrow> string \<Rightarrow> py_exception + json \<Rightarrow> pipeline_state
     \<Rightarrow> pipeline_state"
where
  "persist_outcome draft_of raw_id raw_url outcome st =
     (case outcome of
        Inl e \<Rightarrow> st\<lparr>processing_status := ''failed''\<rparr>
      | Inr result \<Rightarrow>
          st\<lparr>drafts :=
               drafts st @
                 [(draft_of result)\<lparr>status := Some ''draft'', source_ids := [raw_id],
                                     original_urls := [raw_url]\<rparr>],
             processing_status := ''processed''\<rparr>)"

definition sample_state :: pipeline_state where
  "sample_state = \<lparr>drafts = [], processing_status = ''processing''\<rparr>"

section \<open>Properties of the cost computation\<close>

subsection \<open>Evaluating floats on numerals\<close>

lemma bit_length_nonpos: "n \<le> 0 \<Longrightarrow> bit_length n = 0"
  by simp

lemma bit_length_pos: "0 < n \<Longrightarrow> bit_length n = 1 + bit_length (n div 2)"
  by (subst bit_length.simps) simp

declare bit_length.simps [simp del]

lemma floor_rat_numeral: "\<lfloor>numeral a / numeral b :: rat\<rfloor> = numeral a div numeral b"
  using floor_divide_of_int_eq [of "numeral a" "numeral b", where ?'a = rat] by simp

lemma ceiling_rat_numeral:
  "\<lceil>numeral a / numeral b :: rat\<rceil> = - (- numeral a div numeral b)"
  using floor_divide_of_int_eq [of "- numeral a" "numeral b", where ?'a = rat]
  by (simp add: ceiling_def)

lemmas float_eval = b64_def quantum_def binade_def round_half_even_def Let_def
  bit_length_nonpos bit_length_pos fl_round_def float_literal_def int_truediv_def
  floor_rat_numeral ceiling_rat_numeral

subsection \<open>Rounding never more than doubles a magnitude\<close>

lemma round_half_even_bound: "\<bar>of_int (round_half_even y) :: rat\<bar> \<le> 2 * \<bar>y\<bar>"
proof -
  define f where "f = \<lfloor>y\<rfloor>"
  have lo: "of_int f \<le> y" and hi: "y < of_int f + 1"
    unfolding f_def by linarith+
  consider (neg) "f \<le> - 1" | (nonneg) "0 \<le> f" by linarith
  then show ?thesis
  proof cases
    case neg
    then have "(of_int f :: rat) \<le> - 1" by (metis of_int_le_iff of_int_minus of_int_1)
    with lo hi show ?thesis
      unfolding round_half_even_def Let_def f_def [symmetric] by auto
  next
    case nonneg
    then have "(0 :: rat) \<le> of_int f" by simp
    with lo hi show ?thesis
      unfolding round_half_even_def Let_def f_def [symmetric] by auto
  qed
qed

lemma quantum_pos: "0 < quantum x"
  by (simp add: quantum_def)

lemma b64_bound: "\<bar>b64 x\<bar> \<le> 2 * \<bar>x\<bar>"
proof (cases "x = 0")
  case True
  then show ?thesis by (simp add: b64_def)
next
  case False
  let ?q = "quantum x"
  have q: "0 < ?q" by (rule quantum_pos)
  have "\<bar>b64 x\<bar> = \<bar>of_int (round_half_even (x / ?q))\<bar> * ?q"
    using False q by (simp add: b64_def abs_mult)
  also have "\<dots> \<le> (2 * \<bar>x / ?q\<bar>) * ?q"
    by (rule mult_right_mono [OF round_half_even_bound]) (use q in simp)
  also have "\<dots> = 2 * \<bar>x\<bar>"
    using q by simp
  finally show ?thesis .
qed

subsection \<open>The rounded value is a nearest binary64 number\<close>

text \<open>
  For \<open>x \<noteq> 0\<close> the value \<open>b64 x\<close> is an integer multiple of the spacing at \<open>x\<close> with a
  significand of at most 53 bits, at most half a spacing away from \<open>x\<close>; half-way cases go
  to the even significand by the definition of \<open>round_half_even\<close>.
\<close>

lemma bit_length_bounds:
  "0 < n \<Longrightarrow> 0 < bit_length n \<and> 2 ^ nat (bit_length n - 1) \<le> n \<and> n < 2 ^ nat (bit_length n)"
proof (induction n rule: bit_length.induct)
  case (1 n)
  show ?case
  proof (cases "n = 1")
    case True
    have "bit_length 1 = 1 + bit_length 0"
      by (subst bit_length.simps) simp
    also have "bit_length 0 = 0"
      by (subst bit_length.simps) simp
    finally show ?thesis using True by simp
  next
    case False
    with "1.prems" have pos: "0 < n div 2" by simp
    from "1.prems" have "\<not> n \<le> 0" by simp
    from "1.IH" [OF this pos]
    have k: "0 < bit_length (n div 2)"
      and lo: "2 ^ nat (bit_length (n div 2) - 1) \<le> n div 2"
      and hi: "n div 2 < 2 ^ nat (bit_length (n div 2))" by simp_all
    from k obtain j where j: "bit_length (n div 2) = int (Suc j)"
      by (metis Suc_pred' nat_0_less_mult_iff pos_int_cases zero_less_nat_eq nat_int of_nat_0_less_iff)
    have bl: "bit_length n = int (Suc (Suc j))"
      using "1.prems" j by (subst bit_length.simps) simp
    have half: "2 * (n div 2) \<le> n" "n < 2 * (n div 2) + 2" by presburger+
    have n0: "nat (int (Suc j) - 1) = j" and n1: "nat (int (Suc (Suc j)) - 1) = Suc j"
      by arith+
    from lo have lo': "2 ^ j \<le> n div 2" by (simp only: j n0)
    from hi have hi': "n div 2 < 2 ^ Suc j" by (simp only: j nat_int)
    from lo' half(1) have 1: "2 ^ Suc j \<le> n" by simp
    from hi' half(2) have 2: "n < 2 ^ Suc (Suc j)" by simp
    have 3: "0 < int (Suc (Suc j))" by simp
    from 1 2 3 show ?thesis
      unfolding bl n1 nat_int by (intro conjI)
  qed
qed

lemma binade_bounds:
  assumes "x \<noteq> 0"
  shows "2 powi binade x \<le> \<bar>x\<bar> \<and> \<bar>x\<bar> < 2 powi (binade x + 1)"
proof (cases "1 \<le> \<bar>x\<bar>")
  case True
  define m where "m = \<lfloor>\<bar>x\<bar>\<rfloor>"
  have m: "0 < m" "of_int m \<le> \<bar>x\<bar>" "\<bar>x\<bar> < of_int m + 1"
    using True unfolding m_def by linarith+
  define k where "k = nat (bit_length m - 1)"
  from bit_length_bounds [OF m(1)]
  have b: "0 < bit_length m" "2 ^ k \<le> m" "m < 2 ^ nat (bit_length m)"
    by (simp_all add: k_def)
  have kk: "nat (bit_length m) = Suc k" "bit_length m - 1 = int k"
    using b(1) by (simp_all add: k_def)
  have e: "binade x = int k"
    using True by (simp add: binade_def m_def [symmetric] kk)
  from b(2) have "(2 :: rat) ^ k \<le> of_int m"
    by (metis of_int_le_iff of_int_numeral of_int_power)
  with m(2) have lo: "(2 :: rat) ^ k \<le> \<bar>x\<bar>" by linarith
  from b(3) [unfolded kk(1)] have "m + 1 \<le> 2 ^ Suc k" by linarith
  then have "(of_int (m + 1) :: rat) \<le> 2 ^ Suc k"
    by (metis of_int_le_iff of_int_numeral of_int_power)
  with m(3) have hi: "\<bar>x\<bar> < (2 :: rat) ^ Suc k" by simp
  have "int k + 1 = int (Suc k)" by simp
  with lo hi show ?thesis
    unfolding e by (simp only: power_int_of_nat)
next
  case False
  define y where "y = 1 / \<bar>x\<bar>"
  have xp: "0 < \<bar>x\<bar>" using assms by simp
  have y1: "1 < y" using False xp by (simp add: y_def)
  define c where "c = \<lceil>y\<rceil>"
  have c: "1 < c" "y \<le> of_int c" "of_int c - 1 < y"
    using y1 unfolding c_def by linarith+
  define k where "k = nat (bit_length (c - 1) - 1)"
  have cp: "0 < c - 1" using c(1) by simp
  from bit_length_bounds [OF cp]
  have b: "0 < bit_length (c - 1)" "2 ^ k \<le> c - 1" "c - 1 < 2 ^ nat (bit_length (c - 1))"
    by (simp_all add: k_def)
  have kk: "nat (bit_length (c - 1)) = Suc k" "bit_length (c - 1) = int (Suc k)"
    using b(1) by (simp_all add: k_def)
  have e: "binade x = - int (Suc k)"
    using False by (simp add: binade_def y_def [symmetric] c_def [symmetric] kk)
  from b(3) [unfolded kk(1)] have "c \<le> 2 ^ Suc k" by linarith
  then have "(of_int c :: rat) \<le> 2 ^ Suc k"
    by (metis of_int_le_iff of_int_numeral of_int_power)
  with c(2) have yhi: "y \<le> 2 ^ Suc k" by linarith
  from b(2) have "(2 :: rat) ^ k \<le> of_int (c - 1)"
    by (metis of_int_le_iff of_int_numeral of_int_power)
  with c(3) have ylo: "2 ^ k < y" by simp
  have x: "\<bar>x\<bar> = 1 / y" using xp by (simp add: y_def)
  have lo: "1 / 2 ^ Suc k \<le> \<bar>x\<bar>"
    unfolding x using yhi y1 by (simp add: frac_le)
  have hi: "\<bar>x\<bar> < 1 / 2 ^ k"
    unfolding x using ylo by (simp add: frac_less2)
  have p1: "(2 :: rat) powi (- int (Suc k)) = 1 / 2 ^ Suc k"
    by (simp only: power_int_minus_divide power_int_of_nat)
  have "- int (Suc k) + 1 = - int k" by simp
  then have p2: "(2 :: rat) powi (- int (Suc k) + 1) = 1 / 2 ^ k"
    by (simp only: power_int_minus_divide power_int_of_nat)
  from lo hi show ?thesis
    unfolding e p1 p2 by simp
qed

lemma round_half_even_error: "\<bar>of_int (round_half_even y) - y\<bar> \<le> 1 / 2"
proof -
  have "of_int \<lfloor>y\<rfloor> \<le> y" and "y < of_int \<lfloor>y\<rfloor> + 1" by linarith+
  then show ?thesis
    unfolding round_half_even_def Let_def by (auto simp: abs_le_iff)
qed

lemma round_half_even_within:
  assumes "\<bar>y\<bar> < of_int N"
  shows "\<bar>round_half_even y\<bar> \<le> N"
proof -
  from assms have "y < of_int N" and "of_int (- N) < y" by simp_all
  then have "\<lfloor>y\<rfloor> < N" and "- N \<le> \<lfloor>y\<rfloor>"
    by (simp_all add: floor_less_iff le_floor_iff)
  then show ?thesis
    unfolding round_half_even_def Let_def by auto
qed

lemma b64_is_nearest_binary64:
  assumes "x \<noteq> 0"
  shows "\<exists>m. b64 x = of_int m * quantum x \<and> \<bar>m\<bar> \<le> 2 ^ 53 \<and> \<bar>b64 x - x\<bar> \<le> quantum x / 2"
proof -
  let ?q = "quantum x" and ?m = "round_half_even (x / quantum x)"
  have q: "0 < ?q" by (rule quantum_pos)
  have val: "b64 x = of_int ?m * ?q"
    using assms by (simp add: b64_def)
  have "(2 :: rat) powi (binade x - 52) \<le> ?q"
    unfolding quantum_def by (rule power_int_increasing) simp_all
  moreover have "(2 :: rat) powi (binade x + 1) = 2 powi (binade x - 52) * 2 ^ 53"
    by (simp add: power_int_add power_int_diff)
  ultimately have "2 powi (binade x + 1) \<le> ?q * 2 ^ 53"
    by simp
  with binade_bounds [OF assms] have "\<bar>x\<bar> < ?q * 2 ^ 53" by linarith
  then have "\<bar>x / ?q\<bar> < 2 ^ 53"
    using q by (simp add: pos_divide_less_eq mult.commute)
  then have "\<bar>x / ?q\<bar> < of_int (2 ^ 53)" by simp
  from round_half_even_within [OF this] have man: "\<bar>?m\<bar> \<le> 2 ^ 53" .
  have "b64 x - x = (of_int ?m - x / ?q) * ?q"
    using q by (simp add: val algebra_simps)
  then have "\<bar>b64 x - x\<bar> = \<bar>of_int ?m - x / ?q\<bar> * ?q"
    using q by (simp add: abs_mult)
  also have "\<dots> \<le> (1 / 2) * ?q"
    by (rule mult_right_mono [OF round_half_even_error]) (use q in simp)
  finally have err: "\<bar>b64 x - x\<bar> \<le> ?q / 2" by simp
  from val man err show ?thesis by blast
qed

subsection \<open>Token counts never overflow\<close>

text \<open>Dividing a token count below \<open>2^1000\<close> by one million never overflows.\<close>

lemma int_truediv_million:
  assumes "\<bar>a\<bar> < 2 ^ 1000"
  shows "\<exists>r. int_truediv a 1000000 = Inr (Fin r)"
proof -
  let ?x = "of_int a / of_int 1000000 :: rat"
  have "\<bar>of_int a :: rat\<bar> < 2 ^ 1000"
    using assms by (metis of_int_abs of_int_less_iff of_int_numeral of_int_power)
  then have "2 * \<bar>?x\<bar> < 2 ^ 1024" by simp
  with b64_bound [of ?x] have "\<bar>b64 ?x\<bar> < 2 ^ 1024" by linarith
  then have "fl_round ?x = Fin (b64 ?x)"
    by (auto simp: fl_round_def Let_def)
  then show ?thesis by (simp add: int_truediv_def)
qed

subsection \<open>The default entries exist, so the lookup of the default never raises\<close>

lemma openai_default:
  "dict_getitem openai_pricing ''gpt-4o'' =
     Inr \<lparr>input_rate = float_literal (250 / 100), output_rate = float_literal (1000 / 100)\<rparr>"
  by (simp add: dict_getitem_def openai_pricing_def)

lemma anthropic_default:
  "dict_getitem anthropic_pricing ''claude-3-5-sonnet-20241022'' =
     Inr \<lparr>input_rate = float_literal (300 / 100), output_rate = float_literal (1500 / 100)\<rparr>"
  by (simp add: dict_getitem_def anthropic_pricing_def)

lemma calculate_cost_openai_unfold:
  "calculate_cost_openai m u =
     spec_cost_formula (prompt_tokens u) (completion_tokens u)
       (dict_get openai_pricing m
          \<lparr>input_rate = float_literal (250 / 100), output_rate = float_literal (1000 / 100)\<rparr>)"
  unfolding calculate_cost_openai_def spec_cost_formula_def openai_default
  by (simp add: Let_def split: sum.splits)

lemma calculate_cost_anthropic_unfold:
  "calculate_cost_anthropic m u =
     spec_cost_formula (input_tokens u) (output_tokens u)
       (dict_get anthropic_pricing m
          \<lparr>input_rate = float_literal (300 / 100), output_rate = float_literal (1500 / 100)\<rparr>)"
  unfolding calculate_cost_anthropic_def spec_cost_formula_def anthropic_default
  by (simp add: Let_def split: sum.splits)

lemma spec_cost_formula_total:
  assumes "\<bar>i\<bar> < 2 ^ 1000" and "\<bar>j\<bar> < 2 ^ 1000"
  shows "\<exists>c. spec_cost_formula i j r = Inr c"
proof -
  from int_truediv_million [OF assms(1)] obtain p where "int_truediv i 1000000 = Inr (Fin p)" ..
  moreover
  from int_truediv_million [OF assms(2)] obtain q where "int_truediv j 1000000 = Inr (Fin q)" ..
  ultimately show ?thesis by (simp add: spec_cost_formula_def)
qed

subsection \<open>The cost formula and the fallback\<close>

text \<open>
  Claim C1.  For both providers the computed cost is the formula
  \<open>(input_tokens / 1e6) * input_rate + (output_tokens / 1e6) * output_rate\<close>, evaluated in
  float arithmetic, with the rates of the model's entry in the static pricing table (and the
  default entry's rates for a model without entry).  For the model \<open>gpt-4o\<close>, whose rates are
  2.50 and 10.00 per million tokens, 1000 input tokens and 500 output tokens cost exactly the
  float \<open>0.0075\<close>.
\<close>

theorem cost_matches_rate_table:
  "calculate_cost_openai m u =
     spec_cost_formula (prompt_tokens u) (completion_tokens u)
       (case map_of openai_pricing m of
          Some r \<Rightarrow> r
        | None \<Rightarrow> \<lparr>input_rate = float_literal (250 / 100), output_rate = float_literal (1000 / 100)\<rparr>)
   \<and> calculate_cost_anthropic m' u' =
     spec_cost_formula (input_tokens u') (output_tokens u')
       (case map_of anthropic_pricing m' of
          Some r \<Rightarrow> r
        | None \<Rightarrow> \<lparr>input_rate = float_literal (300 / 100), output_rate = float_literal (1500 / 100)\<rparr>)
   \<and> map_of openai_pricing ''gpt-4o'' =
       Some \<lparr>input_rate = float_literal (250 / 100), output_rate = float_literal (1000 / 100)\<rparr>
   \<and> calculate_cost_openai ''gpt-4o'' \<lparr>prompt_tokens = 1000, completion_tokens = 500\<rparr> =
       Inr (float_literal (75 / 10000))"
proof -
  have "calculate_cost_openai ''gpt-4o'' \<lparr>prompt_tokens = 1000, completion_tokens = 500\<rparr> =
          Inr (float_literal (75 / 10000))"
    by (simp add: calculate_cost_openai_def dict_getitem_def dict_get_def openai_pricing_def
        float_eval)
  moreover have "map_of openai_pricing ''gpt-4o'' =
       Some \<lparr>input_rate = float_literal (250 / 100), output_rate = float_literal (1000 / 100)\<rparr>"
    by (simp add: openai_pricing_def)
  ultimately show ?thesis
    by (simp add: calculate_cost_openai_unfold calculate_cost_anthropic_unfold dict_get_def
        split: option.splits)
qed

text \<open>
  Claim C2.  For a model identifier without entry in the pricing table the lookup raises
  nothing and the cost is the formula evaluated with the rates of the default model's entry
  (\<open>gpt-4o\<close>: 2.50 and 10.00 for OpenAI; \<open>claude-3-5-sonnet-20241022\<close>: 3.00 and 15.00 for
  Anthropic), which is the cost the default model itself would be charged; for token counts
  of magnitude below \<open>2^1000\<close> a cost is returned.
\<close>

theorem unknown_model_falls_back_to_default:
  "(map_of openai_pricing m = None \<longrightarrow>
      map_of openai_pricing ''gpt-4o'' =
        Some \<lparr>input_rate = float_literal (250 / 100), output_rate = float_literal (1000 / 100)\<rparr>
      \<and> calculate_cost_openai m u =
          spec_cost_formula (prompt_tokens u) (completion_tokens u)
            \<lparr>input_rate = float_literal (250 / 100), output_rate = float_literal (1000 / 100)\<rparr>
      \<and> calculate_cost_openai m u = calculate_cost_openai ''gpt-4o'' u
      \<and> (\<bar>prompt_tokens u\<bar> < 2 ^ 1000 \<and> \<bar>completion_tokens u\<bar> < 2 ^ 1000
           \<longrightarrow> (\<exists>c. calculate_cost_openai m u = Inr c)))
   \<and> (map_of anthropic_pricing m = None \<longrightarrow>
      map_of anthropic_pricing ''claude-3-5-sonnet-20241022'' =
        Some \<lparr>input_rate = float_literal (300 / 100), output_rate = float_literal (1500 / 100)\<rparr>
      \<and> calculate_cost_anthropic m v =
          spec_cost_formula (input_tokens v) (output_tokens v)
            \<lparr>input_rate = float_literal (300 / 100), output_rate = float_literal (1500 / 100)\<rparr>
      \<and> calculate_cost_anthropic m v = calculate_cost_anthropic ''claude-3-5-sonnet-20241022'' v
      \<and> (\<bar>input_tokens v\<bar> < 2 ^ 1000 \<and> \<bar>output_tokens v\<bar> < 2 ^ 1000
           \<longrightarrow> (\<exists>c. calculate_cost_anthropic m v = Inr c)))"
proof -
  have d1: "dict_get openai_pricing ''gpt-4o'' d =
      \<lparr>input_rate = float_literal (250 / 100), output_rate = float_literal (1000 / 100)\<rparr>" for d
    by (simp add: dict_get_def openai_pricing_def)
  have d2: "dict_get anthropic_pricing ''claude-3-5-sonnet-20241022'' d =
      \<lparr>input_rate = float_literal (300 / 100), output_rate = float_literal (1500 / 100)\<rparr>" for d
    by (simp add: dict_get_def anthropic_pricing_def)
  have e1: "map_of openai_pricing ''gpt-4o'' =
        Some \<lparr>input_rate = float_literal (250 / 100), output_rate = float_literal (1000 / 100)\<rparr>"
    by (simp add: openai_pricing_def)
  have e2: "map_of anthropic_pricing ''claude-3-5-sonnet-20241022'' =
        Some \<lparr>input_rate = float_literal (300 / 100), output_rate = float_literal (1500 / 100)\<rparr>"
    by (simp add: anthropic_pricing_def)
  show ?thesis
    unfolding calculate_cost_openai_unfold calculate_cost_anthropic_unfold d1 d2 e1 e2
    using spec_cost_formula_total by (simp add: dict_get_def)
qed

theorem unknown_model_falls_back_to_default_witness:
  "map_of openai_pricing ''o1-mini'' = None
   \<and> map_of anthropic_pricing ''o1-mini'' = None
   \<and> calculate_cost_openai ''o1-mini'' \<lparr>prompt_tokens = 1000, completion_tokens = 500\<rparr> =
       spec_cost_formula 1000 500
         \<lparr>input_rate = float_literal (250 / 100), output_rate = float_literal (1000 / 100)\<rparr>
   \<and> calculate_cost_openai ''o1-mini'' \<lparr>prompt_tokens = 1000, completion_tokens = 500\<rparr> =
       calculate_cost_openai ''gpt-4o'' \<lparr>prompt_tokens = 1000, completion_tokens = 500\<rparr>
   \<and> (\<exists>c. calculate_cost_openai ''o1-mini'' \<lparr>prompt_tokens = 1000, completion_tokens = 500\<rparr> = Inr c)
   \<and> calculate_cost_anthropic ''o1-mini'' \<lparr>input_tokens = 1000, output_tokens = 500\<rparr> =
       spec_cost_formula 1000 500
         \<lparr>input_rate = float_literal (300 / 100), output_rate = float_literal (1500 / 100)\<rparr>
   \<and> calculate_cost_anthropic ''o1-mini'' \<lparr>input_tokens = 1000, output_tokens = 500\<rparr> =
       calculate_cost_anthropic ''claude-3-5-sonnet-20241022''
         \<lparr>input_tokens = 1000, output_tokens = 500\<rparr>
   \<and> (\<exists>c. calculate_cost_anthropic ''o1-mini'' \<lparr>input_tokens = 1000, output_tokens = 500\<rparr> = Inr c)"
proof -
  have h1: "map_of openai_pricing ''o1-mini'' = None"
    by (simp add: openai_pricing_def)
  have h2: "map_of anthropic_pricing ''o1-mini'' = None"
    by (simp add: anthropic_pricing_def)
  let ?u = "\<lparr>prompt_tokens = 1000, completion_tokens = 500\<rparr>"
  let ?v = "\<lparr>input_tokens = 1000, output_tokens = 500\<rparr>"
  have b: "\<bar>prompt_tokens ?u\<bar> < 2 ^ 1000" "\<bar>completion_tokens ?u\<bar> < 2 ^ 1000"
    "\<bar>input_tokens ?v\<bar> < 2 ^ 1000" "\<bar>output_tokens ?v\<bar> < 2 ^ 1000"
    by simp_all
  have s: "prompt_tokens ?u = 1000" "completion_tokens ?u = 500"
    "input_tokens ?v = 1000" "output_tokens ?v = 500"
    by simp_all
  from h1 h2 b unknown_model_falls_back_to_default [of "''o1-mini''" ?u ?v]
  show ?thesis
    unfolding s by blast
qed

lemma unknown_model_concrete_cost:
  "calculate_cost_openai ''o1-mini'' \<lparr>prompt_tokens = 1000, completion_tokens = 500\<rparr> =
     Inr (float_literal (75 / 10000))"
  by (simp add: calculate_cost_openai_def dict_getitem_def dict_get_def openai_pricing_def
      float_eval)

section \<open>Properties of the articles API\<close>

lemma commit_changed:
  assumes "obj \<noteq> loaded" and "flush_error loaded obj = None"
  shows "commit now db article_id loaded obj =
           Inr (db(article_id \<mapsto> (stored_row loaded obj)\<lparr>updated_at := Some now\<rparr>))"
  using assms by (simp add: commit_def)

lemma commit_unchanged: "commit now db article_id loaded loaded = Inr db"
  by (simp add: commit_def)

lemma flush_error_status:
  assumes "length st \<le> 50" and "\<not> has_nul st"
  shows "flush_error a (a\<lparr>status := Some st, published_at := p\<rparr>) = None"
    and "flush_error a (a\<lparr>status := Some st\<rparr>) = None"
  using assms by (simp_all add: flush_error_def varchar_rejects_def)

lemma varchar_examples:
  "varchar_rejects 3 (Some ''abcd'')"
  "\<not> varchar_rejects 3 (Some ''abc  '')"
  "varchar_stored 3 (Some ''abc  '') = Some ''abc''"
  "varchar_rejects 3 (Some [CHR ''a'', CHR 0x00])"
  "\<not> varchar_rejects 3 None"
  by (simp_all add: varchar_rejects_def varchar_stored_def has_nul_def)

lemma stored_row_status:
  assumes "length st \<le> 50"
  shows "stored_row a (a\<lparr>status := Some st, published_at := p\<rparr>) =
           a\<lparr>status := Some st, published_at := p\<rparr>"
    and "stored_row a (a\<lparr>status := Some st\<rparr>) = a\<lparr>status := Some st\<rparr>"
  using assms by (simp_all add: stored_row_def varchar_stored_def)

lemma stored_row_frame:
  "slug (stored_row l a) = slug a"
  "significance_score (stored_row l a) = significance_score a"
  "source_ids (stored_row l a) = source_ids a"
  "original_urls (stored_row l a) = original_urls a"
  "published_at (stored_row l a) = published_at a"
  "ai_model (stored_row l a) = ai_model a"
  "ai_prompt_version (stored_row l a) = ai_prompt_version a"
  "processing_cost_usd (stored_row l a) = processing_cost_usd a"
  "created_at (stored_row l a) = created_at a"
  "updated_at (stored_row l a) = updated_at a"
  "created_by (stored_row l a) = created_by a"
  "published_by (stored_row l a) = published_by a"
  "status a = status l \<Longrightarrow> status (stored_row l a) = status l"
  by (simp_all add: stored_row_def)

lemma sample_table_row: "sample_table st 7 = Some (sample_article\<lparr>status := Some st\<rparr>)"
  by (simp add: sample_table_def)

lemma sample_table_none: "sample_table st 8 = None"
  by (simp add: sample_table_def)

subsection \<open>Publishing\<close>

lemma publish_not_found:
  assumes "db article_id = None"
  shows "publish_article t1 t2 article_id db = (Inl (HTTPException 404 ''Article not found''), db)"
  using assms by (simp add: publish_article_def scalar_one_or_none_def)

lemma publish_already_published:
  assumes "db article_id = Some article" and "status article = Some ''published''"
  shows "publish_article t1 t2 article_id db =
           (Inl (HTTPException 400 ''Article already published''), db)"
  using assms by (simp add: publish_article_def scalar_one_or_none_def)

lemma publish_other_status:
  assumes "db article_id = Some article" and "status article \<noteq> Some ''published''"
  shows "publish_article t1 t2 article_id db =
           (Inr (article\<lparr>status := Some ''published'', published_at := Some t1,
                          updated_at := Some t2\<rparr>),
            db(article_id \<mapsto> article\<lparr>status := Some ''published'', published_at := Some t1,
                                       updated_at := Some t2\<rparr>))"
proof -
  let ?obj = "article\<lparr>status := Some ''published'', published_at := Some t1\<rparr>"
  have "status ?obj \<noteq> status article" using assms(2) by simp
  then have ne: "?obj \<noteq> article" by metis
  have fe: "flush_error article ?obj = None"
    by (rule flush_error_status) (simp_all add: has_nul_def)
  have st: "stored_row article ?obj = ?obj"
    by (rule stored_row_status) simp
  show ?thesis
    using assms by (simp add: publish_article_def scalar_one_or_none_def Let_def
        commit_changed [OF ne fe] st refresh_def)
qed

text \<open>
  Claim C3 does not hold as stated: publishing succeeds from every status other than
  \<open>published\<close>, for instance from \<open>archived\<close>.
\<close>

theorem publish_from_archived_counterexample:
  "publish_article 20 21 7 (sample_table ''archived'') =
     (Inr (sample_article\<lparr>status := Some ''published'', published_at := Some 20,
                            updated_at := Some 21\<rparr>),
      (sample_table ''archived'')
        (7 \<mapsto> sample_article\<lparr>status := Some ''published'', published_at := Some 20,
                                updated_at := Some 21\<rparr>))
   \<and> ''archived'' \<noteq> ''draft'' \<and> ''archived'' \<noteq> ''review''"
proof -
  have "status (sample_article\<lparr>status := Some ''archived''\<rparr>) \<noteq> Some ''published''"
    by simp
  from publish_other_status [of "sample_table ''archived''" 7
      "sample_article\<lparr>status := Some ''archived''\<rparr>" 20 21] this sample_table_row [of "''archived''"]
  show ?thesis by simp
qed

text \<open>
  Claim C3, amended.  On an existing article whose status is anything but \<open>published\<close>
  (draft, review, archived or any other value), publishing succeeds: the stored status
  becomes \<open>published\<close> and \<open>published_at\<close> is stamped with the current time (and \<open>updated_at\<close>
  with the time of the write), and the updated article is returned.  On an article that is
  already published it raises the client error 400 and writes nothing.
\<close>

theorem publish_succeeds_unless_published:
  "db article_id = Some article \<Longrightarrow>
     (status article \<noteq> Some ''published'' \<longrightarrow>
        publish_article t1 t2 article_id db =
          (Inr (article\<lparr>status := Some ''published'', published_at := Some t1,
                         updated_at := Some t2\<rparr>),
           db(article_id \<mapsto> article\<lparr>status := Some ''published'', published_at := Some t1,
                                      updated_at := Some t2\<rparr>)))
   \<and> (status article = Some ''published'' \<longrightarrow>
        publish_article t1 t2 article_id db =
          (Inl (HTTPException 400 ''Article already published''), db))"
  by (simp add: publish_other_status publish_already_published)

theorem publish_succeeds_unless_published_witness:
  "sample_table ''review'' 7 = Some (sample_article\<lparr>status := Some ''review''\<rparr>)
   \<and> publish_article 20 21 7 (sample_table ''review'') =
       (Inr (sample_article\<lparr>status := Some ''published'', published_at := Some 20,
                              updated_at := Some 21\<rparr>),
        (sample_table ''review'')
          (7 \<mapsto> sample_article\<lparr>status := Some ''published'', published_at := Some 20,
                                  updated_at := Some 21\<rparr>))
   \<and> sample_table ''published'' 7 = Some (sample_article\<lparr>status := Some ''published''\<rparr>)
   \<and> publish_article 20 21 7 (sample_table ''published'') =
       (Inl (HTTPException 400 ''Article already published''), sample_table ''published'')"
proof -
  have r: "status (sample_article\<lparr>status := Some ''review''\<rparr>) \<noteq> Some ''published''"
    by simp
  have p: "status (sample_article\<lparr>status := Some ''published''\<rparr>) = Some ''published''"
    by simp
  from publish_succeeds_unless_published [of "sample_table ''review''" 7
      "sample_article\<lparr>status := Some ''review''\<rparr>" 20 21]
    publish_succeeds_unless_published [of "sample_table ''published''" 7
      "sample_article\<lparr>status := Some ''published''\<rparr>" 20 21]
    r p sample_table_row [of "''review''"] sample_table_row [of "''published''"]
  show ?thesis by simp
qed

subsection \<open>Errors leave the table as it was\<close>

lemma update_not_found:
  assumes "db article_id = None"
  shows "update_article t article_id data db = (Inl (HTTPException 404 ''Article not found''), db)"
  using assms by (simp add: update_article_def scalar_one_or_none_def)

text \<open>
  Claim C4.  Publishing an article that is already published raises the client error 400
  \<open>Article already published\<close>; editing or publishing an article that does not exist raises
  the client error 404 \<open>Article not found\<close>; in each case the table afterwards is the table
  before.
\<close>

theorem client_errors_leave_table_unchanged:
  "(db article_id = Some article \<and> status article = Some ''published'' \<longrightarrow>
      publish_article t1 t2 article_id db =
        (Inl (HTTPException 400 ''Article already published''), db))
   \<and> (db article_id = None \<longrightarrow>
      publish_article t1 t2 article_id db = (Inl (HTTPException 404 ''Article not found''), db)
      \<and> update_article t2 article_id data db =
          (Inl (HTTPException 404 ''Article not found''), db))"
  by (simp add: publish_already_published publish_not_found update_not_found)

theorem client_errors_leave_table_unchanged_witness:
  "sample_table ''published'' 7 = Some (sample_article\<lparr>status := Some ''published''\<rparr>)
   \<and> status (sample_article\<lparr>status := Some ''published''\<rparr>) = Some ''published''
   \<and> publish_article 20 21 7 (sample_table ''published'') =
       (Inl (HTTPException 400 ''Article already published''), sample_table ''published'')
   \<and> sample_table ''draft'' 8 = None
   \<and> publish_article 20 21 8 (sample_table ''draft'') =
       (Inl (HTTPException 404 ''Article not found''), sample_table ''draft'')
   \<and> update_article 21 8 retitle (sample_table ''draft'') =
       (Inl (HTTPException 404 ''Article not found''), sample_table ''draft'')"
proof -
  have p: "status (sample_article\<lparr>status := Some ''published''\<rparr>) = Some ''published''"
    by simp
  from client_errors_leave_table_unchanged [of "sample_table ''published''" 7
      "sample_article\<lparr>status := Some ''published''\<rparr>" 20 21 retitle]
    client_errors_leave_table_unchanged [of "sample_table ''draft''" 8
      "sample_article" 20 21 retitle]
    p sample_table_row [of "''published''"] sample_table_none [of "''draft''"]
  show ?thesis by simp
qed

subsection \<open>Editing\<close>

lemmas setattr_defs = setattr_loop_def setattr_title_def setattr_excerpt_def setattr_content_def
  setattr_category_def setattr_tags_def setattr_cover_image_url_def

lemma setattr_loop_frame:
  "slug (setattr_loop d a) = slug a"
  "significance_score (setattr_loop d a) = significance_score a"
  "source_ids (setattr_loop d a) = source_ids a"
  "original_urls (setattr_loop d a) = original_urls a"
  "status (setattr_loop d a) = status a"
  "published_at (setattr_loop d a) = published_at a"
  "ai_model (setattr_loop d a) = ai_model a"
  "ai_prompt_version (setattr_loop d a) = ai_prompt_version a"
  "processing_cost_usd (setattr_loop d a) = processing_cost_usd a"
  "created_at (setattr_loop d a) = created_at a"
  "updated_at (setattr_loop d a) = updated_at a"
  "created_by (setattr_loop d a) = created_by a"
  "published_by (setattr_loop d a) = published_by a"
  by (simp_all add: setattr_defs split: field.splits)

lemma update_article_cases:
  assumes "db article_id = Some article"
  shows "(\<exists>e. update_article t article_id data db = (Inl e, db))
       \<or> update_article t article_id data db = (Inr article, db)
       \<or> update_article t article_id data db =
            (Inr ((stored_row article (setattr_loop data article))\<lparr>updated_at := Some t\<rparr>),
             db(article_id \<mapsto>
                  (stored_row article (setattr_loop data article))\<lparr>updated_at := Some t\<rparr>))"
proof (cases "setattr_loop data article = article")
  case True
  then show ?thesis
    using assms
    by (simp add: update_article_def scalar_one_or_none_def Let_def commit_unchanged refresh_def)
next
  case False
  show ?thesis
  proof (cases "flush_error article (setattr_loop data article)")
    case None
    from commit_changed [OF False None] assms show ?thesis
      by (simp add: update_article_def scalar_one_or_none_def Let_def refresh_def)
  next
    case (Some e)
    with False assms show ?thesis
      by (simp add: update_article_def scalar_one_or_none_def Let_def commit_def)
  qed
qed

text \<open>
  Claim C5 does not hold as stated: an edit that changes a field also changes
  \<open>updated_at\<close>, which is not one of the six editor fields.
\<close>

theorem update_stamps_updated_at_counterexample:
  "map_option updated_at (sample_table ''draft'' 7) = Some (Some 10)
   \<and> map_option updated_at (snd (update_article 21 7 retitle (sample_table ''draft'')) 7)
       = Some (Some 21)"
  by (simp add: update_article_def scalar_one_or_none_def Let_def commit_def flush_error_def
      varchar_rejects_def has_nul_def stored_row_def varchar_stored_def refresh_def setattr_defs
      retitle_def sample_table_def sample_article_def)

text \<open>
  Claim C5, amended.  An update request on an existing article leaves every field of the
  stored article other than the six editor fields (title, excerpt, content, category, tags,
  cover_image_url) and the audit timestamp \<open>updated_at\<close> unchanged: slug,
  significance_score, source_ids, original_urls, status, published_at, ai_model,
  ai_prompt_version, processing cost, created_at, created_by and published_by stay as they
  were; \<open>updated_at\<close> either stays or becomes the time of the write; no other article is
  touched; and an update that raises leaves the whole table as it was.
\<close>

theorem update_changes_only_editor_fields:
  "db article_id = Some article \<Longrightarrow> update_article t article_id data db = (r, db') \<Longrightarrow>
     (\<exists>a'. db' article_id = Some a'
        \<and> slug a' = slug article
        \<and> significance_score a' = significance_score article
        \<and> source_ids a' = source_ids article
        \<and> original_urls a' = original_urls article
        \<and> status a' = status article
        \<and> published_at a' = published_at article
        \<and> ai_model a' = ai_model article
        \<and> ai_prompt_version a' = ai_prompt_version article
        \<and> processing_cost_usd a' = processing_cost_usd article
        \<and> created_at a' = created_at article
        \<and> created_by a' = created_by article
        \<and> published_by a' = published_by article
        \<and> (updated_at a' = updated_at article \<or> updated_at a' = Some t)
        \<and> (case r of Inr response \<Rightarrow> response = a' | Inl e \<Rightarrow> a' = article))
   \<and> (\<forall>k. k \<noteq> article_id \<longrightarrow> db' k = db k)
   \<and> (case r of Inr response \<Rightarrow> True | Inl e \<Rightarrow> db' = db)"
proof -
  assume a: "db article_id = Some article"
    and u: "update_article t article_id data db = (r, db')"
  from update_article_cases [of db article_id article t data] a
  have "(\<exists>e. update_article t article_id data db = (Inl e, db))
       \<or> update_article t article_id data db = (Inr article, db)
       \<or> update_article t article_id data db =
            (Inr ((stored_row article (setattr_loop data article))\<lparr>updated_at := Some t\<rparr>),
             db(article_id \<mapsto>
                  (stored_row article (setattr_loop data article))\<lparr>updated_at := Some t\<rparr>))"
    by simp
  with u a show ?thesis
    by (elim disjE exE) (auto simp: setattr_loop_frame stored_row_frame)
qed

theorem update_changes_only_editor_fields_witness:
  "sample_table ''draft'' 7 = Some (sample_article\<lparr>status := Some ''draft''\<rparr>)
   \<and> (\<exists>a'. snd (update_article 21 7 retitle (sample_table ''draft'')) 7 = Some a'
        \<and> slug a' = ''reactor-restart''
        \<and> status a' = Some ''draft''
        \<and> source_ids a' = [3]
        \<and> published_at a' = None
        \<and> ai_model a' = Some ''gpt-4o''
        \<and> processing_cost_usd a' = Some (75 / 10000))"
proof -
  obtain r db' where u: "update_article 21 7 retitle (sample_table ''draft'') = (r, db')"
    by (cases "update_article 21 7 retitle (sample_table ''draft'')")
  from update_changes_only_editor_fields [of "sample_table ''draft''" 7
      "sample_article\<lparr>status := Some ''draft''\<rparr>" 21 retitle r db'] u
    sample_table_row [of "''draft''"]
  show ?thesis
    by (auto simp: sample_article_def)
qed

subsection \<open>Archiving\<close>

lemma archive_not_archived:
  assumes "db article_id = Some article" and "status article \<noteq> Some ''archived''"
  shows "archive_article t article_id db =
           (Inr [(''status'', ''archived'')],
            db(article_id \<mapsto> article\<lparr>status := Some ''archived'', updated_at := Some t\<rparr>))"
proof -
  let ?obj = "article\<lparr>status := Some ''archived''\<rparr>"
  have "status ?obj \<noteq> status article" using assms(2) by simp
  then have ne: "?obj \<noteq> article" by metis
  have fe: "flush_error article ?obj = None"
    by (rule flush_error_status) (simp_all add: has_nul_def)
  have st: "stored_row article ?obj = ?obj"
    by (rule stored_row_status) simp
  show ?thesis
    using assms by (simp add: archive_article_def scalar_one_or_none_def Let_def
        commit_changed [OF ne fe] st)
qed

lemma archive_already_archived:
  assumes "db article_id = Some article" and "status article = Some ''archived''"
  shows "archive_article t article_id db = (Inr [(''status'', ''archived'')], db)"
proof -
  have eq: "article\<lparr>status := Some ''archived''\<rparr> = article"
    using assms(2) by (metis Article.surjective Article.update_convs(11))
  show ?thesis
    using assms(1)
    by (simp add: archive_article_def scalar_one_or_none_def Let_def eq commit_unchanged)
qed

text \<open>
  Claim C8 does not hold as stated: archiving an article that is already archived changes
  no attribute, so no UPDATE is emitted and no timestamp is stamped; the table stays as it
  was, with the old \<open>updated_at\<close>.
\<close>

theorem archive_archived_counterexample:
  "archive_article 21 7 (sample_table ''archived'') =
     (Inr [(''status'', ''archived'')], sample_table ''archived'')
   \<and> map_option updated_at (sample_table ''archived'' 7) = Some (Some 10)"
proof -
  have "status (sample_article\<lparr>status := Some ''archived''\<rparr>) = Some ''archived''"
    by simp
  from archive_already_archived [of "sample_table ''archived''" 7
      "sample_article\<lparr>status := Some ''archived''\<rparr>" 21] this sample_table_row [of "''archived''"]
  show ?thesis
    by (simp add: sample_article_def)
qed

text \<open>
  Claim C8, amended.  On an existing article whose status is not yet \<open>archived\<close>, archiving
  is one write that sets the status to \<open>archived\<close> and stamps \<open>updated_at\<close> with the time of
  the write, leaving all other fields and all other articles unchanged.  On an article that
  is already archived it writes nothing.  In both cases it answers \<open>{"status": "archived"}\<close>.
\<close>

theorem archive_sets_status_and_timestamp:
  "db article_id = Some article \<Longrightarrow>
     (status article \<noteq> Some ''archived'' \<longrightarrow>
        archive_article t article_id db =
          (Inr [(''status'', ''archived'')],
           db(article_id \<mapsto> article\<lparr>status := Some ''archived'', updated_at := Some t\<rparr>)))
   \<and> (status article = Some ''archived'' \<longrightarrow>
        archive_article t article_id db = (Inr [(''status'', ''archived'')], db))"
  by (simp add: archive_not_archived archive_already_archived)

theorem archive_sets_status_and_timestamp_witness:
  "sample_table ''published'' 7 = Some (sample_article\<lparr>status := Some ''published''\<rparr>)
   \<and> archive_article 21 7 (sample_table ''published'') =
       (Inr [(''status'', ''archived'')],
        (sample_table ''published'')
          (7 \<mapsto> sample_article\<lparr>status := Some ''archived'', updated_at := Some 21\<rparr>))"
proof -
  have "status (sample_article\<lparr>status := Some ''published''\<rparr>) \<noteq> Some ''archived''"
    by simp
  from archive_sets_status_and_timestamp [of "sample_table ''published''" 7
      "sample_article\<lparr>status := Some ''published''\<rparr>" 21] this
    sample_table_row [of "''published''"]
  show ?thesis by simp
qed

section \<open>Properties of the scraper base\<close>

text \<open>
  Claim C9.  A \<open>ScrapedArticle\<close> constructed without a metadata argument, or with
  \<open>metadata=None\<close>, has the empty dict as metadata; no constructed \<open>ScrapedArticle\<close> has
  metadata \<open>None\<close>.
\<close>

theorem constructed_metadata_is_a_dict:
  "ScrapedArticle.metadata (ScrapedArticle_init i u t c p m) \<noteq> None
   \<and> (m = Unset \<or> m = Given None \<longrightarrow>
        ScrapedArticle.metadata (ScrapedArticle_init i u t c p m) = Some [])"
  by (auto simp: ScrapedArticle_init_def post_init_def or_default_def split: field.splits)

theorem constructed_metadata_is_a_dict_witness:
  "ScrapedArticle.metadata
     (ScrapedArticle_init ''a1'' ''https://example.org/a1'' ''Restart'' Unset Unset
        (Unset :: (string \<times> json) list option field)) = Some []
   \<and> ScrapedArticle.metadata
     (ScrapedArticle_init ''a1'' ''https://example.org/a1'' ''Restart'' Unset Unset
        (Given None :: (string \<times> json) list option field)) = Some []"
  using constructed_metadata_is_a_dict [of "''a1''" "''https://example.org/a1''" "''Restart''"
      Unset Unset "Unset :: (string \<times> json) list option field"]
    constructed_metadata_is_a_dict [of "''a1''" "''https://example.org/a1''" "''Restart''"
      Unset Unset "Given None :: (string \<times> json) list option field"]
  by simp

lemma parse_date_returns_None:
  "parse_date parser_parse None = Inr None"
  "parse_date parser_parse (Some []) = Inr None"
  "parser_parse s = Inl e \<Longrightarrow> isinstance_ValueError e \<or> isinstance_TypeError e \<Longrightarrow>
     parse_date parser_parse (Some s) = Inr None"
  by (simp_all add: parse_date_def)

lemma parse_date_raises_iff:
  "parse_date parser_parse date_str = Inl e \<longleftrightarrow>
     (\<exists>s. date_str = Some s \<and> s \<noteq> [] \<and> parser_parse s = Inl e
          \<and> \<not> isinstance_ValueError e \<and> \<not> isinstance_TypeError e)"
  by (auto simp: parse_date_def split: option.splits sum.splits if_splits)

text \<open>
  Claim C10 says that \<open>_parse_date\<close> never raises.  The handler catches \<open>ValueError\<close> and
  \<open>TypeError\<close> only: on the string \<open>08335394550\<close>, where the date parser raises
  \<open>OverflowError\<close>, \<open>_parse_date\<close> raises it too instead of returning \<open>None\<close>.
\<close>

theorem parse_date_overflow_propagates:
  "parse_date parse_digits_as_year (Some ''08335394550'') = Inl OverflowError"
  by (simp add: parse_date_def parse_digits_as_year_def isinstance_ValueError_def
      isinstance_TypeError_def)

section \<open>Properties of the AI article processor\<close>

subsection \<open>Splitting at the first occurrence of a separator\<close>

lemma startswith_append:
  "length p \<le> length s \<Longrightarrow> startswith (s @ t) p = startswith s p"
  by (simp add: startswith_def)

lemma startswith_self: "startswith (sep @ rest) sep"
  by (simp add: startswith_def)

lemma startswith_Cons:
  "startswith (c # cs) (p # ps) \<Longrightarrow> c = p"
  by (simp add: startswith_def)

lemma startswith_length: "startswith s p \<Longrightarrow> length p \<le> length s"
proof -
  assume "startswith s p"
  then have "take (length p) s = p" by (simp add: startswith_def)
  then have "length (take (length p) s) = length p" by (rule arg_cong)
  then show ?thesis by simp
qed

lemma contains_short: "length s < length sub \<Longrightarrow> \<not> contains s sub"
proof (induction s)
  case Nil
  then show ?case by auto
next
  case (Cons c cs)
  then have "\<not> startswith (c # cs) sub"
    using startswith_length [of "c # cs" sub] by auto
  with Cons show ?case by simp
qed

lemma contains_append_left: "contains s sub \<Longrightarrow> contains (s @ t) sub"
proof (induction s)
  case Nil
  then show ?case by (cases t) (simp_all add: startswith_def)
next
  case (Cons c cs)
  show ?case
  proof (cases "startswith (c # cs) sub")
    case True
    from startswith_length [OF True] True have "startswith ((c # cs) @ t) sub"
      by (simp only: startswith_append)
    then show ?thesis by simp
  next
    case False
    with Cons show ?thesis by simp
  qed
qed

lemma contains_prefix: "contains (sep @ rest) sep"
proof (cases "sep @ rest")
  case Nil
  then show ?thesis by simp
next
  case (Cons c cs)
  with startswith_self [of sep rest] show ?thesis by simp
qed

lemma contains_at: "contains (pre @ sep @ rest) sep"
  by (induction pre) (simp_all add: contains_prefix)

lemma not_contains_without_head:
  assumes "p \<notin> set pre" and "length t < length (p # ps)"
  shows "\<not> contains (pre @ t) (p # ps)"
  using assms(1)
proof (induction pre)
  case Nil
  from contains_short [OF assms(2)] show ?case by simp
next
  case (Cons c cs)
  then have "c \<noteq> p" by auto
  then have "\<not> startswith (c # cs @ t) (p # ps)"
    using startswith_Cons by metis
  with Cons show ?case by simp
qed

lemma split_acc_first:
  assumes "sep \<noteq> []" and "\<not> contains (pre @ butlast sep) sep"
  shows "split_acc sep seg (pre @ sep @ rest) = (seg @ pre) # split_acc sep [] rest"
  using assms(2)
proof (induction pre arbitrary: seg)
  case Nil
  from assms(1) obtain c cs where sep: "sep = c # cs" by (cases sep) auto
  have "startswith (c # cs @ rest) (c # cs)"
    using startswith_self [of "c # cs" rest] by simp
  then show ?case by (simp add: sep)
next
  case (Cons c cs)
  from Cons.prems have n1: "\<not> startswith (c # cs @ butlast sep) sep"
    and n2: "\<not> contains (cs @ butlast sep) sep" by simp_all
  have "length sep \<le> length (c # cs @ butlast sep)" by simp
  from startswith_append [OF this, of "[last sep] @ rest"] n1 assms(1)
  have "\<not> startswith (c # cs @ sep @ rest) sep"
    by (metis append.assoc append_Cons append_butlast_last_id)
  with Cons.IH [OF n2] show ?case by simp
qed

lemma split_acc_none: "\<not> contains s sep \<Longrightarrow> split_acc sep seg s = [seg @ s]"
  by (induction s arbitrary: seg) simp_all

lemma split_acc_nonempty: "split_acc sep seg s \<noteq> []"
  by (induction s arbitrary: seg) simp_all

lemma hd_split_acc_prefix: "\<exists>w. hd (split_acc sep seg s) = seg @ w"
proof (induction s arbitrary: seg)
  case Nil
  show ?case by simp
next
  case (Cons c cs)
  show ?case
  proof (cases "startswith (c # cs) sep")
    case True
    then show ?thesis by simp
  next
    case False
    from Cons [of "seg @ [c]"] obtain w where "hd (split_acc sep (seg @ [c]) cs) = (seg @ [c]) @ w" ..
    with False show ?thesis by simp
  qed
qed

subsection \<open>Unwrapping a fenced payload\<close>

lemma str_split_first:
  assumes "sep \<noteq> []" and "\<not> contains (pre @ butlast sep) sep"
  shows "str_split (pre @ sep @ rest) sep = Inr (pre # split_acc sep [] rest)"
  using split_acc_first [OF assms, of "[]" rest] assms(1) by (simp add: str_split_def)

lemma str_split_none:
  assumes "sep \<noteq> []" and "\<not> contains s sep"
  shows "str_split s sep = Inr [s]"
  using split_acc_none [OF assms(2), of "[]"] assms(1) by (simp add: str_split_def)

lemma list_getitem_hd: "xs \<noteq> [] \<Longrightarrow> list_getitem xs 0 = Inr (hd xs)"
  by (cases xs) (simp_all add: list_getitem_def)

lemma list_getitem_second: "xs \<noteq> [] \<Longrightarrow> list_getitem (a # xs) 1 = Inr (hd xs)"
  by (cases xs) (simp_all add: list_getitem_def)

text \<open>A text without backticks in front of a fence contains no earlier fence.\<close>

lemma no_fence_before:
  assumes "CHR ''`'' \<notin> set pre"
  shows "\<not> contains (pre @ ''```jso'') ''```json''"
    and "\<not> contains (pre @ ''``'') ''```''"
proof -
  have "length ''```jso'' < length ''```json''" by simp
  from not_contains_without_head [OF assms this] show "\<not> contains (pre @ ''```jso'') ''```json''" .
  have "length ''``'' < length ''```''" by simp
  from not_contains_without_head [OF assms this] show "\<not> contains (pre @ ''``'') ''```''" .
qed

text \<open>
  Scanning for \<open>```json\<close> passes over a payload without triple backtick, and at the
  closing fence it either stops (the fence is followed by \<open>json\<close>) or passes over it.
\<close>

lemma json_fence_is_fence: "startswith s ''```json'' \<Longrightarrow> startswith s ''```''"
proof -
  assume "startswith s ''```json''"
  then have "take (length ''```json'') s = ''```json''" by (simp only: startswith_def)
  then have "take 3 (take (length ''```json'') s) = take 3 ''```json''" by (rule arg_cong)
  then show ?thesis by (simp add: startswith_def)
qed

lemma skip_payload:
  assumes "\<not> contains (body @ ''``'') ''```''"
  shows "split_acc ''```json'' seg (body @ ''```'' @ post) =
           split_acc ''```json'' (seg @ body) (''```'' @ post)"
  using assms
proof (induction body arbitrary: seg)
  case Nil
  show ?case by simp
next
  case (Cons c cs)
  from Cons.prems have n1: "\<not> startswith (c # cs @ ''``'') ''```''"
    and n2: "\<not> contains (cs @ ''``'') ''```''" by simp_all
  have "startswith (c # cs @ ''```'' @ post) ''```'' = startswith (c # cs @ ''``'') ''```''"
  proof (cases cs)
    case Nil
    then show ?thesis by (simp add: startswith_def)
  next
    case (Cons d ds)
    then show ?thesis by (cases ds) (simp_all add: startswith_def)
  qed
  with n1 json_fence_is_fence [of "c # cs @ ''```'' @ post"]
  have "\<not> startswith (c # cs @ ''```'' @ post) ''```json''"
    by blast
  with Cons.IH [OF n2, of "seg @ [c]"] show ?case by simp
qed

lemma at_closing_fence:
  assumes "\<not> startswith post ''`json''" and "\<not> startswith post ''``json''"
  shows "hd (split_acc ''```json'' seg (''```'' @ post)) = seg
       \<or> (\<exists>w. hd (split_acc ''```json'' seg (''```'' @ post)) = seg @ ''```'' @ w)"
proof (cases "startswith post ''json''")
  case True
  then show ?thesis by (simp add: startswith_def)
next
  case False
  from hd_split_acc_prefix [of "''```json''" "seg @ ''```''" post]
  obtain w where "hd (split_acc ''```json'' (seg @ ''```'') post) = (seg @ ''```'') @ w" ..
  with False assms show ?thesis by (simp add: startswith_def)
qed

lemma tagged_segment:
  assumes "\<not> contains (body @ ''``'') ''```''"
    and "\<not> startswith post ''`json''" and "\<not> startswith post ''``json''"
  shows "hd (split_acc ''```'' [] (hd (split_acc ''```json'' [] (body @ ''```'' @ post)))) = body"
proof -
  let ?S = "hd (split_acc ''```json'' [] (body @ ''```'' @ post))"
  have S: "?S = hd (split_acc ''```json'' body (''```'' @ post))"
    using skip_payload [OF assms(1), of "[]" post] by simp
  from at_closing_fence [OF assms(2,3), of body]
  have "?S = body \<or> (\<exists>w. ?S = body @ ''```'' @ w)"
    unfolding S .
  then show ?thesis
  proof (elim disjE exE)
    assume e: "?S = body"
    from assms(1) contains_append_left [of body "''```''" "''``''"]
    have "\<not> contains body ''```''" by blast
    from split_acc_none [OF this, of "[]"] show ?thesis
      unfolding e by simp
  next
    fix w assume e: "?S = body @ ''```'' @ w"
    have ne: "''```'' \<noteq> []" by simp
    have nb: "\<not> contains (body @ butlast ''```'') ''```''"
      using assms(1) by simp
    from split_acc_first [OF ne nb, of "[]" w] show ?thesis
      unfolding e by simp
  qed
qed

lemma extract_json_tagged:
  assumes "\<not> contains (pre @ ''```jso'') ''```json''"
    and "\<not> contains (body @ ''``'') ''```''"
    and "\<not> startswith post ''`json''" and "\<not> startswith post ''``json''"
  shows "extract_json (pre @ ''```json'' @ body @ ''```'' @ post) = Inr body"
proof -
  let ?rest = "body @ ''```'' @ post"
  let ?S = "hd (split_acc ''```json'' [] ?rest)"
  have c: "contains (pre @ ''```json'' @ ?rest) ''```json''"
    by (rule contains_at)
  have ne: "''```json'' \<noteq> []" by simp
  have nb: "\<not> contains (pre @ butlast ''```json'') ''```json''"
    using assms(1) by simp
  have s1: "str_split (pre @ ''```json'' @ ?rest) ''```json'' =
              Inr (pre # split_acc ''```json'' [] ?rest)"
    by (rule str_split_first [OF ne nb])
  have g1: "list_getitem (pre # split_acc ''```json'' [] ?rest) 1 = Inr ?S"
    by (rule list_getitem_second) (rule split_acc_nonempty)
  have s2: "str_split ?S ''```'' = Inr (split_acc ''```'' [] ?S)"
    by (simp add: str_split_def)
  have g2: "list_getitem (split_acc ''```'' [] ?S) 0 = Inr (hd (split_acc ''```'' [] ?S))"
    by (rule list_getitem_hd) (rule split_acc_nonempty)
  have t: "hd (split_acc ''```'' [] ?S) = body"
    by (rule tagged_segment [OF assms(2,3,4)])
  show ?thesis
    unfolding extract_json_def
    by (simp only: c if_True s1 g1 s2 g2 t sum.case)
qed

lemma extract_json_bare:
  assumes "\<not> contains (pre @ ''``'') ''```''"
    and "\<not> contains (body @ ''``'') ''```''"
    and "\<not> contains (pre @ ''```'' @ body @ ''```'' @ post) ''```json''"
  shows "extract_json (pre @ ''```'' @ body @ ''```'' @ post) = Inr body"
proof -
  have c: "contains (pre @ ''```'' @ body @ ''```'' @ post) ''```''"
    by (rule contains_at)
  have ne: "''```'' \<noteq> []" by simp
  have nb: "\<not> contains (body @ butlast ''```'') ''```''"
    using assms(2) by simp
  have np: "\<not> contains (pre @ butlast ''```'') ''```''"
    using assms(1) by simp
  have "split_acc ''```'' [] (body @ ''```'' @ post) = body # split_acc ''```'' [] post"
    using split_acc_first [OF ne nb, of "[]" post] by simp
  then have s1: "str_split (pre @ ''```'' @ body @ ''```'' @ post) ''```'' =
              Inr (pre # body # split_acc ''```'' [] post)"
    using str_split_first [OF ne np, of "body @ ''```'' @ post"] by simp
  have g1: "list_getitem (pre # body # split_acc ''```'' [] post) 1 = Inr body"
    by (simp add: list_getitem_def)
  from assms(2) contains_append_left [of body "''```''" "''``''"]
  have "\<not> contains body ''```''" by blast
  then have s2: "str_split body ''```'' = Inr [body]"
    by (intro str_split_none) simp_all
  have g2: "list_getitem [body] 0 = Inr body"
    by (simp add: list_getitem_def)
  show ?thesis
    unfolding extract_json_def
    by (simp only: assms(3) c if_True if_False s1 g1 s2 g2 sum.case)
qed

text \<open>The extraction itself never raises: a text that contains the separator splits in two.\<close>

lemma split_acc_two:
  assumes "sep \<noteq> []"
  shows "contains s sep \<Longrightarrow> \<exists>a b r. split_acc sep seg s = a # b # r"
proof (induction s arbitrary: seg)
  case Nil
  with assms show ?case by simp
next
  case (Cons c cs)
  show ?case
  proof (cases "startswith (c # cs) sep")
    case True
    obtain b r where "split_acc sep [] (drop (length sep - 1) cs) = b # r"
      using split_acc_nonempty [of sep "[]" "drop (length sep - 1) cs"]
      by (cases "split_acc sep [] (drop (length sep - 1) cs)") auto
    with True show ?thesis by simp
  next
    case False
    with Cons.prems have "contains cs sep" by simp
    from Cons.IH [OF this, of "seg @ [c]"] False show ?thesis by simp
  qed
qed

lemma second_segment_returns:
  assumes "contains text sep" and "sep \<noteq> []"
  shows "\<exists>payload.
           (case str_split text sep of
              Inl e \<Rightarrow> Inl e
            | Inr parts \<Rightarrow>
           (case list_getitem parts 1 of
              Inl e \<Rightarrow> Inl e
            | Inr part \<Rightarrow>
           (case str_split part ''```'' of
              Inl e \<Rightarrow> Inl e
            | Inr parts' \<Rightarrow> list_getitem parts' 0))) = Inr payload"
proof -
  from split_acc_two [OF assms(2,1), of "[]"]
  obtain a b r where s: "split_acc sep [] text = a # b # r" by blast
  obtain x xs where t: "split_acc ''```'' [] b = x # xs"
    using split_acc_nonempty [of "''```''" "[]" b] by (cases "split_acc ''```'' [] b") auto
  show ?thesis
    using assms(2) by (simp add: str_split_def list_getitem_def s t)
qed

lemma extract_json_returns: "\<exists>payload. extract_json text = Inr payload"
proof (cases "contains text ''```json''")
  case True
  from second_segment_returns [OF True] show ?thesis
    by (simp add: extract_json_def True)
next
  case False
  show ?thesis
  proof (cases "contains text ''```''")
    case True
    from second_segment_returns [OF True] show ?thesis
      by (simp add: extract_json_def True False)
  next
    case c: False
    show ?thesis by (simp add: extract_json_def c False)
  qed
qed

lemma process_anthropic_payload:
  assumes "extract_json text = Inr body"
  shows "process_anthropic lds self (Inr \<lparr>anthropic_response.content = text # blocks,
                             anthropic_response.usage = u\<rparr>) =
           (case lds (strip body) of
              Inl e \<Rightarrow> Inl e
            | Inr result \<Rightarrow> annotate_anthropic self u result)"
  using assms by (simp add: process_anthropic_def list_getitem_def split: sum.splits)

lemma process_openai_as_is:
  "process_openai lds self (Inr \<lparr>openai_response.choices = Some text # others,
                          openai_response.usage = u\<rparr>) =
     (case lds text of
        Inl e \<Rightarrow> Inl e
      | Inr result \<Rightarrow> annotate_openai self u result)"
  by (simp add: process_openai_def list_getitem_def split: sum.splits)

subsection \<open>Concrete runs\<close>

lemma strip_title_doc: "strip (''\<newline>'' @ title_doc @ ''\<newline>'') = title_doc"
  by (simp add: strip_def isspace_def title_doc_def)

lemma sample_loads_title_doc: "sample_loads title_doc = Inr (JDict [(''title'', JStr ''Restart'')])"
  by (simp add: sample_loads_def)

lemma sample_loads_content_doc:
  "sample_loads content_doc = Inr (JDict [(''content'', JStr ''```'')])"
  by (simp add: sample_loads_def title_doc_def content_doc_def)

lemma openai_tagged_reply:
  "process (sample_env tagged_reply) (ArticleProcessor_init ''gpt-4o'') sample_raw =
     Inl JSONDecodeError"
  by (simp add: process_def Let_def sample_env_def ArticleProcessor_init_def startswith_def
      process_openai_def list_getitem_def sample_loads_def tagged_reply_def
      title_doc_def content_doc_def)

lemma extract_json_nested_reply: "extract_json nested_reply = Inr ''\<newline>{\"content\": \"''"
  by (simp add: extract_json_def nested_reply_def content_doc_def startswith_def str_split_def
      list_getitem_def)

lemma anthropic_nested_reply:
  "process (sample_env nested_reply) (ArticleProcessor_init ''claude-3-5-haiku-20241022'')
     sample_raw = Inl JSONDecodeError"
  by (simp add: process_def Let_def sample_env_def ArticleProcessor_init_def startswith_def
      process_anthropic_def list_getitem_def extract_json_nested_reply strip_def isspace_def
      sample_loads_def title_doc_def content_doc_def)

text \<open>
  Claim C6 does not hold as stated.  On the OpenAI path nothing is stripped: a fenced
  document is handed to the JSON parser with its fences and is rejected.  On the Anthropic
  path the payload is cut at the first triple backtick, so a fenced document that contains
  one inside a string is rejected as well.
\<close>

theorem fenced_json_rejected_counterexample:
  "tagged_reply = ''```json\<newline>'' @ title_doc @ ''\<newline>```''
   \<and> sample_loads title_doc = Inr (JDict [(''title'', JStr ''Restart'')])
   \<and> process (sample_env tagged_reply) (ArticleProcessor_init ''gpt-4o'') sample_raw =
       Inl JSONDecodeError
   \<and> nested_reply = ''```json\<newline>'' @ content_doc @ ''\<newline>```''
   \<and> sample_loads content_doc = Inr (JDict [(''content'', JStr ''```'')])
   \<and> process (sample_env nested_reply) (ArticleProcessor_init ''claude-3-5-haiku-20241022'')
       sample_raw = Inl JSONDecodeError"
  using openai_tagged_reply anthropic_nested_reply sample_loads_title_doc
    sample_loads_content_doc
  by (simp add: tagged_reply_def nested_reply_def)

text \<open>
  Claim C6, amended.  On the Anthropic path, take a response whose first text block is any
  text, an opening fence, a payload, a closing fence \<open>```\<close> and any text after it, where
  the payload contains no triple backtick and does not end in a backtick (the closing fence
  is the first \<open>```\<close> after the opening one) and the opening fence is either

    \<^item> the first \<open>```json\<close> of the text, with a closing fence that does not become a \<open>```json\<close>
      by its last one or two backticks (the text after it starts with neither \<open>`json\<close> nor
      \<open>``json\<close>); or

    \<^item> the first \<open>```\<close> of a text without any \<open>```json\<close>.

  The text before the opening fence may contain backticks, and in the first case the text
  after the closing fence may contain further fences of either kind.  Then the fences are
  removed before parsing: the outcome is that of parsing the payload, stripped of
  surrounding whitespace.  On the OpenAI path the message content is parsed as it is.
\<close>

theorem fenced_json_is_unwrapped:
  "\<not> contains (body @ ''``'') ''```'' \<Longrightarrow>
   (text = pre @ ''```json'' @ body @ ''```'' @ post
      \<and> \<not> contains (pre @ ''```jso'') ''```json''
      \<and> \<not> startswith post ''`json'' \<and> \<not> startswith post ''``json'')
   \<or> (text = pre @ ''```'' @ body @ ''```'' @ post
      \<and> \<not> contains (pre @ ''``'') ''```''
      \<and> \<not> contains text ''```json'') \<Longrightarrow>
   process_anthropic lds self
       (Inr \<lparr>anthropic_response.content = text # blocks, anthropic_response.usage = u\<rparr>) =
     (case lds (strip body) of
        Inl e \<Rightarrow> Inl e
      | Inr result \<Rightarrow> annotate_anthropic self u result)
   \<and> process_openai lds self
       (Inr \<lparr>openai_response.choices = Some text # others, openai_response.usage = u'\<rparr>) =
     (case lds text of
        Inl e \<Rightarrow> Inl e
      | Inr result \<Rightarrow> annotate_openai self u' result)"
proof -
  assume body: "\<not> contains (body @ ''``'') ''```''"
    and form: "(text = pre @ ''```json'' @ body @ ''```'' @ post
        \<and> \<not> contains (pre @ ''```jso'') ''```json''
        \<and> \<not> startswith post ''`json'' \<and> \<not> startswith post ''``json'')
      \<or> (text = pre @ ''```'' @ body @ ''```'' @ post
        \<and> \<not> contains (pre @ ''``'') ''```''
        \<and> \<not> contains text ''```json'')"
  from form have "extract_json text = Inr body"
  proof
    assume a: "text = pre @ ''```json'' @ body @ ''```'' @ post
        \<and> \<not> contains (pre @ ''```jso'') ''```json''
        \<and> \<not> startswith post ''`json'' \<and> \<not> startswith post ''``json''"
    then have t: "text = pre @ ''```json'' @ body @ ''```'' @ post"
      and a1: "\<not> contains (pre @ ''```jso'') ''```json''"
      and a3: "\<not> startswith post ''`json''" "\<not> startswith post ''``json''"
      by blast+
    from extract_json_tagged [OF a1 body a3] show ?thesis
      unfolding t .
  next
    assume a: "text = pre @ ''```'' @ body @ ''```'' @ post
        \<and> \<not> contains (pre @ ''``'') ''```''
        \<and> \<not> contains text ''```json''"
    then have t: "text = pre @ ''```'' @ body @ ''```'' @ post"
      and b1: "\<not> contains (pre @ ''``'') ''```''"
      and b0: "\<not> contains text ''```json''"
      by blast+
    from b0 have "\<not> contains (pre @ ''```'' @ body @ ''```'' @ post) ''```json''"
      unfolding t .
    from extract_json_bare [OF b1 body this] show ?thesis
      unfolding t .
  qed
  from process_anthropic_payload [OF this] process_openai_as_is
  show ?thesis by blast
qed

theorem fenced_json_is_unwrapped_witness:
  "\<not> contains ((''\<newline>'' @ title_doc @ ''\<newline>'') @ ''``'') ''```''
   \<and> chatty_reply =
       ''Use `x`:\<newline>'' @ ''```json'' @ (''\<newline>'' @ title_doc @ ''\<newline>'') @ ''```''
         @ ''\<newline>See also ```json''
   \<and> \<not> contains (''Use `x`:\<newline>'' @ ''```jso'') ''```json''
   \<and> \<not> startswith ''\<newline>See also ```json'' ''`json''
   \<and> \<not> startswith ''\<newline>See also ```json'' ''``json''
   \<and> process_anthropic sample_loads (ArticleProcessor_init ''claude-3-5-haiku-20241022'')
       (Inr \<lparr>anthropic_response.content = [chatty_reply],
             anthropic_response.usage = sample_usage\<rparr>) =
     annotate_anthropic (ArticleProcessor_init ''claude-3-5-haiku-20241022'') sample_usage
       (JDict [(''title'', JStr ''Restart'')])
   \<and> bare_reply =
       ''Use `x`:\<newline>'' @ ''```'' @ (''\<newline>'' @ title_doc @ ''\<newline>'') @ ''```'' @ ''\<newline>Done.''
   \<and> \<not> contains (''Use `x`:\<newline>'' @ ''``'') ''```''
   \<and> \<not> contains bare_reply ''```json''
   \<and> process_anthropic sample_loads (ArticleProcessor_init ''claude-3-5-haiku-20241022'')
       (Inr \<lparr>anthropic_response.content = [bare_reply],
             anthropic_response.usage = sample_usage\<rparr>) =
     annotate_anthropic (ArticleProcessor_init ''claude-3-5-haiku-20241022'') sample_usage
       (JDict [(''title'', JStr ''Restart'')])"
proof -
  let ?pre = "''Use `x`:\<newline>''" and ?body = "''\<newline>'' @ title_doc @ ''\<newline>''"
  let ?post = "''\<newline>See also ```json''" and ?post' = "''\<newline>Done.''"
  let ?claude = "ArticleProcessor_init ''claude-3-5-haiku-20241022''"
  have h1: "\<not> contains (?body @ ''``'') ''```''"
    by (simp add: title_doc_def startswith_def)
  have h2: "chatty_reply = ?pre @ ''```json'' @ ?body @ ''```'' @ ?post"
    by (simp add: chatty_reply_def)
  have h3: "\<not> contains (?pre @ ''```jso'') ''```json''"
    by (simp add: startswith_def)
  have h4: "\<not> startswith ?post ''`json''" "\<not> startswith ?post ''``json''"
    by (simp_all add: startswith_def)
  have h5: "bare_reply = ?pre @ ''```'' @ ?body @ ''```'' @ ?post'"
    by (simp add: bare_reply_def)
  have h6: "\<not> contains (?pre @ ''``'') ''```''"
    by (simp add: startswith_def)
  have h7: "\<not> contains bare_reply ''```json''"
    by (simp add: bare_reply_def title_doc_def startswith_def)
  from h2 h3 h4 have f1: "(chatty_reply = ?pre @ ''```json'' @ ?body @ ''```'' @ ?post
        \<and> \<not> contains (?pre @ ''```jso'') ''```json''
        \<and> \<not> startswith ?post ''`json'' \<and> \<not> startswith ?post ''``json'')
      \<or> (chatty_reply = ?pre @ ''```'' @ ?body @ ''```'' @ ?post
        \<and> \<not> contains (?pre @ ''``'') ''```''
        \<and> \<not> contains chatty_reply ''```json'')"
    by (rule_tac disjI1) (intro conjI)
  from h5 h6 h7 have f2: "(bare_reply = ?pre @ ''```json'' @ ?body @ ''```'' @ ?post'
        \<and> \<not> contains (?pre @ ''```jso'') ''```json''
        \<and> \<not> startswith ?post' ''`json'' \<and> \<not> startswith ?post' ''``json'')
      \<or> (bare_reply = ?pre @ ''```'' @ ?body @ ''```'' @ ?post'
        \<and> \<not> contains (?pre @ ''``'') ''```''
        \<and> \<not> contains bare_reply ''```json'')"
    by (rule_tac disjI2) (intro conjI)
  from fenced_json_is_unwrapped [OF h1 f1, of sample_loads ?claude "[]" sample_usage]
  have r1: "process_anthropic sample_loads ?claude
       (Inr \<lparr>anthropic_response.content = [chatty_reply],
             anthropic_response.usage = sample_usage\<rparr>) =
     annotate_anthropic ?claude sample_usage (JDict [(''title'', JStr ''Restart'')])"
    by (simp only: strip_title_doc sample_loads_title_doc sum.case)
  from fenced_json_is_unwrapped [OF h1 f2, of sample_loads ?claude "[]" sample_usage]
  have r2: "process_anthropic sample_loads ?claude
       (Inr \<lparr>anthropic_response.content = [bare_reply],
             anthropic_response.usage = sample_usage\<rparr>) =
     annotate_anthropic ?claude sample_usage (JDict [(''title'', JStr ''Restart'')])"
    by (simp only: strip_title_doc sample_loads_title_doc sum.case)
  from h1 h2 h3 h4 r1 h5 h6 h7 r2 show ?thesis by (intro conjI)
qed

subsection \<open>Unparseable content\<close>

lemma persist_outcome_failure:
  "drafts (persist_outcome draft_of raw_id raw_url (Inl e) st) = drafts st"
  "processing_status (persist_outcome draft_of raw_id raw_url (Inl e) st) = ''failed''"
  by (simp_all add: persist_outcome_def)

lemma not_json_runs:
  "process (sample_env ''not json'') (ArticleProcessor_init ''claude-3-5-haiku-20241022'')
     sample_raw = Inl JSONDecodeError"
  "process (sample_env ''not json'') (ArticleProcessor_init ''gpt-4o'') sample_raw =
     Inl JSONDecodeError"
  by (simp_all add: process_def Let_def sample_env_def ArticleProcessor_init_def startswith_def
      process_openai_def process_anthropic_def list_getitem_def extract_json_def strip_def
      isspace_def sample_loads_def title_doc_def content_doc_def)

text \<open>
  Claim C7 does not hold as stated: the failure is not a \<open>ProcessingError\<close>.  The exception
  of the JSON parser, here \<open>json.JSONDecodeError\<close>, leaves \<open>process\<close> as it is.
\<close>

theorem unparseable_is_not_processing_error_counterexample:
  "process (sample_env ''not json'') (ArticleProcessor_init ''claude-3-5-haiku-20241022'')
     sample_raw \<noteq> Inl ProcessingError
   \<and> process (sample_env ''not json'') (ArticleProcessor_init ''gpt-4o'') sample_raw \<noteq>
       Inl ProcessingError"
  by (simp add: not_json_runs)

text \<open>
  Claim C7, amended.  When the JSON parser raises on the content of the provider response
  (on the Anthropic path: the first text block after fence stripping and whitespace
  stripping; on the OpenAI path: the message content of the first choice), \<open>process\<close>
  raises the exception of the parser, whichever it is, and returns no result; and the step
  that persists the outcome creates no Article from that response and sets the status of
  the raw article to \<open>failed\<close>.  The fence stripping itself never raises (lemma
  \<open>extract_json_returns\<close>), so on the Anthropic path there always is such a content.
\<close>

theorem unparseable_raises_parser_error:
  "(provider self = ''openai''
      \<and> openai_create env (model self) (prompt_of env raw) = Inr r
      \<and> list_getitem (choices r) 0 = Inr (Some text)
      \<and> loads env text = Inl e
      \<longrightarrow> process env self raw = Inl e
        \<and> drafts (persist_outcome draft_of raw_id raw_url (process env self raw) st) = drafts st
        \<and> processing_status (persist_outcome draft_of raw_id raw_url (process env self raw) st)
            = ''failed'')
   \<and> (provider self \<noteq> ''openai''
      \<and> anthropic_create env (model self) (prompt_of env raw) = Inr r'
      \<and> list_getitem (anthropic_response.content r') 0 = Inr text'
      \<and> extract_json text' = Inr body
      \<and> loads env (strip body) = Inl e'
      \<longrightarrow> process env self raw = Inl e'
        \<and> drafts (persist_outcome draft_of raw_id raw_url (process env self raw) st) = drafts st
        \<and> processing_status (persist_outcome draft_of raw_id raw_url (process env self raw) st)
            = ''failed'')"
proof (intro conjI impI)
  assume a: "provider self = ''openai''
      \<and> openai_create env (model self) (prompt_of env raw) = Inr r
      \<and> list_getitem (choices r) 0 = Inr (Some text)
      \<and> loads env text = Inl e"
  then have p: "process env self raw = Inl e"
    by (simp add: process_def Let_def process_openai_def)
  then show "process env self raw = Inl e" .
  from p show "drafts (persist_outcome draft_of raw_id raw_url (process env self raw) st) = drafts st"
    by (simp only: persist_outcome_failure)
  from p show "processing_status (persist_outcome draft_of raw_id raw_url (process env self raw) st)
      = ''failed''"
    by (simp only: persist_outcome_failure)
next
  assume a: "provider self \<noteq> ''openai''
      \<and> anthropic_create env (model self) (prompt_of env raw) = Inr r'
      \<and> list_getitem (anthropic_response.content r') 0 = Inr text'
      \<and> extract_json text' = Inr body
      \<and> loads env (strip body) = Inl e'"
  then have p: "process env self raw = Inl e'"
    by (simp add: process_def Let_def process_anthropic_def)
  then show "process env self raw = Inl e'" .
  from p show "drafts (persist_outcome draft_of raw_id raw_url (process env self raw) st) = drafts st"
    by (simp only: persist_outcome_failure)
  from p show "processing_status (persist_outcome draft_of raw_id raw_url (process env self raw) st)
      = ''failed''"
    by (simp only: persist_outcome_failure)
qed

theorem unparseable_raises_parser_error_witness:
  "process (sample_env ''not json'') (ArticleProcessor_init ''gpt-4o'') sample_raw =
     Inl JSONDecodeError
   \<and> drafts (persist_outcome (\<lambda>result. sample_article) 7 ''https://example.org/a1''
       (process (sample_env ''not json'') (ArticleProcessor_init ''gpt-4o'') sample_raw)
       sample_state) = []
   \<and> process (sample_env ''not json'') (ArticleProcessor_init ''claude-3-5-haiku-20241022'')
       sample_raw = Inl JSONDecodeError
   \<and> drafts (persist_outcome (\<lambda>result. sample_article) 7 ''https://example.org/a1''
       (process (sample_env ''not json'') (ArticleProcessor_init ''claude-3-5-haiku-20241022'')
          sample_raw)
       sample_state) = []"
proof -
  let ?env = "sample_env ''not json''"
  let ?gpt = "ArticleProcessor_init ''gpt-4o''"
  let ?claude = "ArticleProcessor_init ''claude-3-5-haiku-20241022''"
  let ?r = "\<lparr>openai_response.choices = [Some ''not json''],
             openai_response.usage = \<lparr>prompt_tokens = 1000, completion_tokens = 500\<rparr>\<rparr>"
  let ?r' = "\<lparr>anthropic_response.content = [''not json''],
              anthropic_response.usage = sample_usage\<rparr>"
  let ?d = "\<lambda>result :: json. sample_article"
  let ?u = "''https://example.org/a1''"
  have g: "provider ?gpt = ''openai''" "provider ?claude \<noteq> ''openai''"
    by (simp_all add: ArticleProcessor_init_def startswith_def)
  have c: "openai_create ?env (model ?gpt) (prompt_of ?env sample_raw) = Inr ?r"
    "anthropic_create ?env (model ?claude) (prompt_of ?env sample_raw) = Inr ?r'"
    by (simp_all add: sample_env_def)
  have t: "list_getitem (choices ?r) 0 = Inr (Some ''not json'')"
    "list_getitem (anthropic_response.content ?r') 0 = Inr ''not json''"
    by (simp_all add: list_getitem_def)
  have e: "extract_json ''not json'' = Inr ''not json''"
    by (simp add: extract_json_def startswith_def)
  have l: "loads ?env ''not json'' = Inl JSONDecodeError"
    "loads ?env (strip ''not json'') = Inl JSONDecodeError"
    by (simp_all add: sample_env_def sample_loads_def title_doc_def content_doc_def strip_def
        isspace_def)
  have s: "drafts sample_state = []" by (simp add: sample_state_def)
  from unparseable_raises_parser_error [of ?gpt ?env sample_raw ?r "''not json''"
      JSONDecodeError ?d 7 ?u sample_state] g(1) c(1) t(1) l(1)
  have 1: "process ?env ?gpt sample_raw = Inl JSONDecodeError
      \<and> drafts (persist_outcome ?d 7 ?u (process ?env ?gpt sample_raw) sample_state) =
          drafts sample_state"
    by blast
  from unparseable_raises_parser_error [of ?claude ?env sample_raw _ _ _ ?d 7 ?u sample_state
      ?r' "''not json''" "''not json''" JSONDecodeError] g(2) c(2) t(2) e l(2)
  have 2: "process ?env ?claude sample_raw = Inl JSONDecodeError
      \<and> drafts (persist_outcome ?d 7 ?u (process ?env ?claude sample_raw) sample_state) =
          drafts sample_state"
    by blast
  from 1 2 show ?thesis unfolding s by blast
qed

end
